theory Spec2Isabelle
  imports Main "HOL-Library.Sublist" "HOL-Library.Multiset"
begin

section \<open>discord-exporter: the collection pipeline of \<open>main.go\<close>\<close>

text \<open>
  The repository holds three revisions of \<open>main.go\<close>. The newest one (with
  \<open>parseExcludedChannels\<close>, \<open>countChannelMessages\<close>, \<open>processChannel\<close> and the worker
  pool in \<open>updateMessageCount\<close>) is the program modelled here under the source's names.
  The intermediate revision has the same \<open>parseExcludedChannels\<close>,
  \<open>updateMemberCount\<close> and \<open>countChannelMessages\<close>, and a sequential
  \<open>updateMessageCount\<close> without the channel-type filter; the oldest revision has the
  pagination loop inline in \<open>updateMessageCount\<close>. What the earlier revisions do
  differently is modelled under names ending in \<open>_v2\<close> and \<open>_v1\<close>.

  Go values are modelled as follows. A \<open>string\<close> is a byte sequence, here a
  \<open>char list\<close> (Isabelle characters are bytes). An \<open>error\<close> is its message; a
  possibly-nil error is an \<open>error option\<close>. Go's \<open>int\<close> is 32 or 64 bits wide; a
  message total passes \<open>2^31\<close> only after 21 million full pages of one channel (\<open>2^63\<close>
  after \<open>9.2 * 10^16\<close>), and totals are unbounded integers here. A
  \<open>map[string]struct{}\<close> is a set of strings.
\<close>

subsection \<open>Constants\<close>

type_synonym error = string

definition maxMembersPerRequest :: int where
  "maxMembersPerRequest = 1000"

definition maxMessagesPerRequest :: int where
  "maxMessagesPerRequest = 100"

definition maxConcurrentChannels :: nat where
  "maxConcurrentChannels = 5"

text \<open>\<open>time.Duration\<close> counts nanoseconds; \<open>15 * time.Minute\<close>.\<close>

definition defaultUpdateInterval :: int where
  "defaultUpdateInterval = 15 * (60 * 1000000000)"

subsection \<open>The standard library's \<open>strings.Split\<close> and \<open>strings.TrimSpace\<close>\<close>

text \<open>
  \<open>strings.Split(s, sep)\<close> for a separator of one byte: the substrings between the
  separators, a single element \<open>s\<close> when the separator does not occur (so the empty
  string splits into one empty substring).
\<close>

fun Split :: "string \<Rightarrow> char \<Rightarrow> string list" where
  "Split [] sep = [[]]"
| "Split (c # cs) sep =
     (if c = sep then [] # Split cs sep
      else (case Split cs sep of
              [] \<Rightarrow> [[c]]
            | w # ws \<Rightarrow> (c # w) # ws))"

text \<open>
  \<open>strings.TrimSpace\<close> removes the leading and trailing runes for which
  \<open>unicode.IsSpace\<close> holds: the code points with Unicode's White_Space property,
  U+0009 to U+000D, U+0020, U+0085, U+00A0, U+1680, U+2000 to U+200A, U+2028, U+2029,
  U+202F, U+205F and U+3000. On the bytes of the string these are the following UTF-8
  encodings; a rune is decoded at the start (at the end) of the string exactly when the
  string starts (ends) with its encoding.
\<close>

definition whiteSpace :: "string list" where
  "whiteSpace =
     [[CHR 0x09], [CHR 0x0A], [CHR 0x0B], [CHR 0x0C], [CHR 0x0D], [CHR 0x20],
      [CHR 0xC2, CHR 0x85], [CHR 0xC2, CHR 0xA0],
      [CHR 0xE1, CHR 0x9A, CHR 0x80],
      [CHR 0xE2, CHR 0x80, CHR 0x80], [CHR 0xE2, CHR 0x80, CHR 0x81],
      [CHR 0xE2, CHR 0x80, CHR 0x82], [CHR 0xE2, CHR 0x80, CHR 0x83],
      [CHR 0xE2, CHR 0x80, CHR 0x84], [CHR 0xE2, CHR 0x80, CHR 0x85],
      [CHR 0xE2, CHR 0x80, CHR 0x86], [CHR 0xE2, CHR 0x80, CHR 0x87],
      [CHR 0xE2, CHR 0x80, CHR 0x88], [CHR 0xE2, CHR 0x80, CHR 0x89],
      [CHR 0xE2, CHR 0x80, CHR 0x8A],
      [CHR 0xE2, CHR 0x80, CHR 0xA8], [CHR 0xE2, CHR 0x80, CHR 0xA9],
      [CHR 0xE2, CHR 0x80, CHR 0xAF],
      [CHR 0xE2, CHR 0x81, CHR 0x9F],
      [CHR 0xE3, CHR 0x80, CHR 0x80]]"

text \<open>The number of bytes of the white-space rune the string starts with, 0 if none.\<close>

definition leadingSpace :: "string \<Rightarrow> nat" where
  "leadingSpace s = (case find (\<lambda>w. prefix w s) whiteSpace of None \<Rightarrow> 0 | Some w \<Rightarrow> length w)"

lemma leadingSpace_le: "leadingSpace s \<le> length s"
  by (auto simp: leadingSpace_def find_Some_iff prefix_length_le split: option.splits)

function TrimLeft :: "string \<Rightarrow> string" where
  "TrimLeft s = (if leadingSpace s = 0 then s else TrimLeft (drop (leadingSpace s) s))"
  by pat_completeness auto
termination
proof (relation "measure length")
  show "wf (measure length)" by simp
next
  fix s :: string
  assume "leadingSpace s \<noteq> 0"
  then have "0 < leadingSpace s" by simp
  moreover have "leadingSpace s \<le> length s" by (rule leadingSpace_le)
  ultimately show "(drop (leadingSpace s) s, s) \<in> measure length" by simp
qed

declare TrimLeft.simps [simp del]

text \<open>The number of bytes of the white-space rune the string ends with, 0 if none.\<close>

definition trailingSpace :: "string \<Rightarrow> nat" where
  "trailingSpace s = (case find (\<lambda>w. suffix w s) whiteSpace of None \<Rightarrow> 0 | Some w \<Rightarrow> length w)"

lemma trailingSpace_le: "trailingSpace s \<le> length s"
  by (auto simp: trailingSpace_def find_Some_iff suffix_length_le split: option.splits)

function TrimRight :: "string \<Rightarrow> string" where
  "TrimRight s =
     (if trailingSpace s = 0 then s else TrimRight (take (length s - trailingSpace s) s))"
  by pat_completeness auto
termination
proof (relation "measure length")
  show "wf (measure length)" by simp
next
  fix s :: string
  assume "trailingSpace s \<noteq> 0"
  then have "0 < trailingSpace s" by simp
  moreover have "trailingSpace s \<le> length s" by (rule trailingSpace_le)
  ultimately show "(take (length s - trailingSpace s) s, s) \<in> measure length" by simp
qed

declare TrimRight.simps [simp del]

definition TrimSpace :: "string \<Rightarrow> string" where
  "TrimSpace s = TrimRight (TrimLeft s)"

subsection \<open>Configuration: \<open>parseExcludedChannels\<close>\<close>

record Config =
  Token :: string
  ServerID :: string
  ExcludedChannels :: "string set"

text \<open>
  The loop over \<open>channelNames\<close> inserts into the map \<open>excluded\<close>; the map's keys are
  all it holds.
\<close>

definition parseExcludedChannels :: "string \<Rightarrow> string set" where
  "parseExcludedChannels channelsStr =
     (if channelsStr = [] then {}
      else fold (\<lambda>name excluded.
                   let trimmedName = TrimSpace name
                   in if trimmedName \<noteq> [] then insert trimmedName excluded else excluded)
             (Split channelsStr CHR '','') {})"

text \<open>
  The Exclusion Set in the words of the specification: split on commas, trim each
  component, drop the components that are empty after trimming.
\<close>

definition spec_ExclusionSet :: "string \<Rightarrow> string set" where
  "spec_ExclusionSet channelsStr =
     {t \<in> TrimSpace ` set (Split channelsStr CHR '',''). t \<noteq> []}"

subsection \<open>The bot API and the clock\<close>

text \<open>
  Of discordgo's \<open>Message\<close>, \<open>Member\<close> and \<open>Channel\<close> only the fields the exporter
  reads are kept. \<open>ChannelType\<close> is an integer type in discordgo, whose constant
  \<open>ChannelTypeGuildText\<close> is 0.
\<close>

type_synonym ChannelType = int

definition ChannelTypeGuildText :: ChannelType where
  "ChannelTypeGuildText = 0"

record Message =
  ID :: string

record Member =
  Nick :: string

record Channel =
  ID :: string
  Name :: string
  Type :: ChannelType

text \<open>
  The upstream platform is outside the program. A session is a record of its three
  request methods over a state \<open>'s\<close> of the outside world: a request answers with an
  error or a value and a new state, or never answers (\<open>None\<close>; no request has a
  timeout). The arguments are those of discordgo: \<open>GuildMembers(guildID, after, limit)\<close>,
  \<open>GuildChannels(guildID)\<close> and \<open>ChannelMessages(channelID, limit, beforeID, _, _)\<close>
  (the last two arguments are always empty).
\<close>

record 's Session =
  GuildMembers :: "'s \<Rightarrow> string \<Rightarrow> string \<Rightarrow> int \<Rightarrow> ((error + Member list) \<times> 's) option"
  GuildChannels :: "'s \<Rightarrow> string \<Rightarrow> ((error + Channel list) \<times> 's) option"
  ChannelMessages ::
    "'s \<Rightarrow> string \<Rightarrow> int \<Rightarrow> string \<Rightarrow> ((error + Message list) \<times> 's) option"

text \<open>\<open>time.Now\<close> reads the world's clock (in nanoseconds), \<open>time.Sleep\<close> lets it run.\<close>

record 's Clock =
  Now :: "'s \<Rightarrow> int"
  Sleep :: "'s \<Rightarrow> int \<Rightarrow> 's"

subsection \<open>\<open>countChannelMessages\<close>\<close>

text \<open>
  The \<open>for\<close> loop has no bound, so it is a partial function: \<open>None\<close> is a run that
  never returns. A returned value is Go's pair \<open>(int, error)\<close>. The index
  \<open>messageCount - 1\<close> is read only when the page has at least 100 messages.
\<close>

partial_function (option) countLoop ::
  "'s Session \<Rightarrow> string \<Rightarrow> string \<Rightarrow> int \<Rightarrow> 's \<Rightarrow> ((int \<times> error option) \<times> 's) option"
where
  "countLoop session channelID lastMessageID totalCount \<sigma> =
     (case ChannelMessages session \<sigma> channelID maxMessagesPerRequest lastMessageID of
        None \<Rightarrow> None
      | Some (Inl err, \<sigma>') \<Rightarrow> Some ((0, Some (''failed to get messages: '' @ err)), \<sigma>')
      | Some (Inr messages, \<sigma>') \<Rightarrow>
          (let messageCount = int (length messages);
               totalCount' = totalCount + messageCount
           in if messageCount < maxMessagesPerRequest then Some ((totalCount', None), \<sigma>')
              else countLoop session channelID
                     (Message.ID (messages ! nat (messageCount - 1))) totalCount' \<sigma>'))"

declare countLoop.simps [code]

definition countChannelMessages ::
  "'s Session \<Rightarrow> string \<Rightarrow> 's \<Rightarrow> ((int \<times> error option) \<times> 's) option" where
  "countChannelMessages session channelID \<sigma> = countLoop session channelID [] 0 \<sigma>"

text \<open>
  An upstream given by the sequence of its answers: the state counts the page requests
  answered so far, and request number \<open>k\<close> is answered by \<open>pages k\<close>, whatever it asks.
\<close>

definition paged :: "(nat \<Rightarrow> error + Message list) \<Rightarrow> nat Session" where
  "paged pages =
     \<lparr>GuildMembers = (\<lambda>k guildID after limit. None),
      GuildChannels = (\<lambda>k guildID. None),
      ChannelMessages = (\<lambda>k channelID limit beforeID. Some (pages k, Suc k))\<rparr>"

subsection \<open>Process state: the gauges and the log\<close>

text \<open>
  A gauge holds a \<open>float64\<close>; the exporter only ever stores converted integers, so a
  gauge value is written as the integer that was converted (the conversion is exact
  below \<open>2^53\<close>). \<open>messageCountGauge\<close> is a gauge vector with the label \<open>channel\<close>: a
  map from label values to gauge values, empty when the process starts. The log is the
  list of the entries written by \<open>log.Printf\<close> and \<open>log.Println\<close>, one constructor for
  each call in the source, its arguments those of the call.
\<close>

datatype float64 = float64 int

datatype logEntry =
    FailedToGetGuildMembers error
  | MemberCount int
  | FailedToGetGuildChannels error
  | SkippingExcludedChannel string
  | NoActiveChannels
  | ProcessingChannels int nat
  | FailedToCountMessages string error
  | ChannelMessageCount string int
  | UpdateCompleted int int int
  | FailedToLoadConfig error
  | ConfigurationLoaded string
  | ExcludedChannelsCount int
  | FailedToCreateSession error
  | SessionCreated
  | CollectorStarted int
  | StartingHTTPServer string
  | FailedToStartHTTPServer error
  | FailedToGetMessages string error
  | MessageCount string int

record Exporter =
  memberCountGauge :: float64
  messageCountGauge :: "string \<rightharpoonup> float64"
  logged :: "logEntry list"

definition initialExporter :: Exporter where
  "initialExporter =
     \<lparr>memberCountGauge = float64 0, messageCountGauge = Map.empty, logged = []\<rparr>"

definition Printf :: "logEntry \<Rightarrow> Exporter \<Rightarrow> Exporter" where
  "Printf entry x = x\<lparr>logged := logged x @ [entry]\<rparr>"

subsection \<open>\<open>updateMemberCount\<close>\<close>

definition updateMemberCount ::
  "'s Session \<Rightarrow> string \<Rightarrow> 's \<times> Exporter \<Rightarrow> ('s \<times> Exporter) option" where
  "updateMemberCount session serverID = (\<lambda>(\<sigma>, x).
     case GuildMembers session \<sigma> serverID [] maxMembersPerRequest of
       None \<Rightarrow> None
     | Some (Inl err, \<sigma>') \<Rightarrow> Some (\<sigma>', Printf (FailedToGetGuildMembers err) x)
     | Some (Inr members, \<sigma>') \<Rightarrow>
         (let memberCount = int (length members)
          in Some (\<sigma>', Printf (MemberCount memberCount)
                          (x\<lparr>memberCountGauge := float64 memberCount\<rparr>))))"

subsection \<open>\<open>processChannel\<close> and the parts of \<open>updateMessageCount\<close>\<close>

record channelCountResult =
  channelName :: string
  count' :: int
  err :: "error option"

text \<open>
  \<open>processChannel\<close> sends its result on the channel \<open>results\<close>; here it returns the
  value it sends.
\<close>

definition processChannel ::
  "'s Session \<Rightarrow> Channel \<Rightarrow> 's \<Rightarrow> (channelCountResult \<times> 's) option" where
  "processChannel session channel \<sigma> =
     (case countChannelMessages session (Channel.ID channel) \<sigma> of
        None \<Rightarrow> None
      | Some ((totalCount, e), \<sigma>') \<Rightarrow>
          Some (\<lparr>channelName = Name channel, count' = totalCount, err = e\<rparr>, \<sigma>'))"

text \<open>
  The first loop of \<open>updateMessageCount\<close>, over \<open>channels\<close>: it builds \<open>activeChannels\<close>
  and logs the excluded text channels it skips.
\<close>

definition filterChannels :: "Config \<Rightarrow> Channel list \<Rightarrow> Channel list \<times> logEntry list" where
  "filterChannels config channels =
     fold (\<lambda>channel (activeChannels, skipped).
             if Type channel \<noteq> ChannelTypeGuildText then (activeChannels, skipped)
             else if Name channel \<in> ExcludedChannels config
               then (activeChannels, skipped @ [SkippingExcludedChannel (Name channel)])
             else (activeChannels @ [channel], skipped))
       channels ([], [])"

text \<open>
  The last loop, \<open>for result := range results\<close>, over the results in the order in which
  they are received: it counts successes and errors and publishes the successful counts.
\<close>

definition collectResults ::
  "channelCountResult list \<Rightarrow> Exporter \<Rightarrow> int \<times> int \<times> Exporter" where
  "collectResults results x =
     fold (\<lambda>result (successCount, errorCount, x).
             case err result of
               Some e \<Rightarrow>
                 (successCount, errorCount + 1,
                  Printf (FailedToCountMessages (channelName result) e) x)
             | None \<Rightarrow>
                 (successCount + 1, errorCount,
                  Printf (ChannelMessageCount (channelName result) (count' result))
                    (x\<lparr>messageCountGauge :=
                         (messageCountGauge x)(channelName result \<mapsto> float64 (count' result))\<rparr>)))
       results (0, 0, x)"

subsection \<open>The worker pool of \<open>updateMessageCount\<close>\<close>

text \<open>
  \<open>updateMessageCount\<close> starts one goroutine for each active channel and one that closes
  \<open>results\<close> when the wait group is at zero, and receives from \<open>results\<close> meanwhile. The
  goroutines interleave; the pool is a transition system whose steps are the channel
  operations, the page requests and the wait-group operations. Worker \<open>i\<close> is the
  goroutine of \<open>activeChannels ! i\<close>, at one of these points of its code:
\<close>

datatype worker =
    Waiting                     \<comment> \<open>started, before \<open>semaphore <- struct{}{}\<close>\<close>
  | Counting string int         \<comment> \<open>in the loop of \<open>countChannelMessages\<close>, before the next
                                    request, with \<open>lastMessageID\<close> and \<open>totalCount\<close>\<close>
  | Sending int "error option"  \<comment> \<open>\<open>countChannelMessages\<close> has returned, before \<open>results <- \<dots>\<close>\<close>
  | Releasing                   \<comment> \<open>result sent, before the deferred \<open><-semaphore\<close>\<close>
  | Finishing                   \<comment> \<open>permit given back, before the deferred \<open>wg.Done()\<close>\<close>
  | Finished

text \<open>
  \<open>semaphore\<close> is the number of values in the buffered channel of that name (capacity
  \<open>maxConcurrentChannels\<close>), \<open>results\<close> the content of the buffered channel \<open>results\<close>
  (capacity \<open>len(activeChannels)\<close>), \<open>wg\<close> the counter of the wait group, \<open>received\<close>
  the values the \<open>range\<close> loop has received so far and \<open>rangeDone\<close> whether that loop has
  ended. All \<open>wg.Add(1)\<close> precede the start of the closing goroutine, so the pool starts
  with the counter at \<open>len(activeChannels)\<close> and every worker \<open>Waiting\<close>.
\<close>

record 's Pool =
  workers :: "worker list"
  semaphore :: nat
  results :: "channelCountResult list"
  wg :: nat
  resultsClosed :: bool
  received :: "channelCountResult list"
  rangeDone :: bool
  world :: 's

definition startPool :: "Channel list \<Rightarrow> 's \<Rightarrow> 's Pool" where
  "startPool activeChannels \<sigma> =
     \<lparr>workers = replicate (length activeChannels) Waiting, semaphore = 0, results = [],
      wg = length activeChannels, resultsClosed = False, received = [], rangeDone = False,
      world = \<sigma>\<rparr>"

text \<open>
  What the body of the loop of \<open>countChannelMessages\<close> does with the answer to a request:
  return (the worker goes on to send) or go round again.
\<close>

definition afterPage :: "string \<Rightarrow> int \<Rightarrow> error + Message list \<Rightarrow> worker" where
  "afterPage lastMessageID totalCount answer =
     (case answer of
        Inl e \<Rightarrow> Sending 0 (Some (''failed to get messages: '' @ e))
      | Inr messages \<Rightarrow>
          (let messageCount = int (length messages);
               totalCount' = totalCount + messageCount
           in if messageCount < maxMessagesPerRequest then Sending totalCount' None
              else Counting (Message.ID (messages ! nat (messageCount - 1))) totalCount'))"

inductive poolStep :: "'s Session \<Rightarrow> Channel list \<Rightarrow> 's Pool \<Rightarrow> 's Pool \<Rightarrow> bool"
  for session :: "'s Session" and activeChannels :: "Channel list"
where
  acquire:
    "i < length (workers p) \<Longrightarrow> workers p ! i = Waiting \<Longrightarrow>
     semaphore p < maxConcurrentChannels \<Longrightarrow>
     poolStep session activeChannels p
       (p\<lparr>workers := (workers p)[i := Counting [] 0], semaphore := semaphore p + 1\<rparr>)"
| request:
    "i < length (workers p) \<Longrightarrow> workers p ! i = Counting lastMessageID totalCount \<Longrightarrow>
     ChannelMessages session (world p) (Channel.ID (activeChannels ! i))
         maxMessagesPerRequest lastMessageID = Some (answer, \<sigma>') \<Longrightarrow>
     poolStep session activeChannels p
       (p\<lparr>workers := (workers p)[i := afterPage lastMessageID totalCount answer],
          world := \<sigma>'\<rparr>)"
| send:
    "i < length (workers p) \<Longrightarrow> workers p ! i = Sending totalCount e \<Longrightarrow>
     length (results p) < length activeChannels \<Longrightarrow>
     poolStep session activeChannels p
       (p\<lparr>workers := (workers p)[i := Releasing],
          results := results p @
            [\<lparr>channelName = Name (activeChannels ! i), count' = totalCount, err = e\<rparr>]\<rparr>)"
| release:
    "i < length (workers p) \<Longrightarrow> workers p ! i = Releasing \<Longrightarrow> 0 < semaphore p \<Longrightarrow>
     poolStep session activeChannels p
       (p\<lparr>workers := (workers p)[i := Finishing], semaphore := semaphore p - 1\<rparr>)"
| wgDone:
    "i < length (workers p) \<Longrightarrow> workers p ! i = Finishing \<Longrightarrow> 0 < wg p \<Longrightarrow>
     poolStep session activeChannels p
       (p\<lparr>workers := (workers p)[i := Finished], wg := wg p - 1\<rparr>)"
| close:
    "wg p = 0 \<Longrightarrow> \<not> resultsClosed p \<Longrightarrow>
     poolStep session activeChannels p (p\<lparr>resultsClosed := True\<rparr>)"
| receive:
    "results p = r # rest \<Longrightarrow>
     poolStep session activeChannels p (p\<lparr>results := rest, received := received p @ [r]\<rparr>)"
| rangeEnd:
    "results p = [] \<Longrightarrow> resultsClosed p \<Longrightarrow> \<not> rangeDone p \<Longrightarrow>
     poolStep session activeChannels p (p\<lparr>rangeDone := True\<rparr>)"

definition reachable :: "'s Session \<Rightarrow> Channel list \<Rightarrow> 's \<Rightarrow> 's Pool \<Rightarrow> bool" where
  "reachable session activeChannels \<sigma> p =
     (poolStep session activeChannels)\<^sup>*\<^sup>* (startPool activeChannels \<sigma>) p"

text \<open>
  A worker holds a permit from its send on \<open>semaphore\<close> to its receive from it; it has
  delivered its result (\<open>delivered\<close>) once it is past its send on \<open>results\<close>.
\<close>

fun holdsPermit :: "worker \<Rightarrow> bool" where
  "holdsPermit (Counting lastMessageID totalCount) = True"
| "holdsPermit (Sending totalCount e) = True"
| "holdsPermit Releasing = True"
| "holdsPermit w = False"

fun isCounting :: "worker \<Rightarrow> bool" where
  "isCounting (Counting lastMessageID totalCount) = True"
| "isCounting w = False"

fun delivered :: "worker \<Rightarrow> bool" where
  "delivered Releasing = True"
| "delivered Finishing = True"
| "delivered Finished = True"
| "delivered w = False"

text \<open>
  One run of the pool: from the world \<open>\<sigma>\<close> the \<open>range\<close> loop can receive \<open>rs\<close>, in this
  order, and end with the world at \<open>\<sigma>'\<close>.
\<close>

definition poolRun ::
  "'s Session \<Rightarrow> Channel list \<Rightarrow> 's \<Rightarrow> channelCountResult list \<Rightarrow> 's \<Rightarrow> bool" where
  "poolRun session activeChannels \<sigma> rs \<sigma>' =
     (\<exists>p. reachable session activeChannels \<sigma> p \<and> rangeDone p \<and> received p = rs \<and> world p = \<sigma>')"

text \<open>
  The Go scheduler chooses the run. \<open>updateMessageCount\<close> takes that choice as a
  parameter \<open>pool\<close>: the results in the order received and the world afterwards, or
  \<open>None\<close> when the \<open>range\<close> loop never ends. A \<open>workerPool\<close> makes only choices that are
  runs of the pool. The schedule that lets each worker run to its end before the next
  starts is \<open>sequentialPool\<close>.
\<close>

type_synonym 's scheduler = "Channel list \<Rightarrow> 's \<Rightarrow> (channelCountResult list \<times> 's) option"

definition workerPool :: "'s Session \<Rightarrow> 's scheduler \<Rightarrow> bool" where
  "workerPool session pool =
     (\<forall>activeChannels \<sigma> rs \<sigma>'.
        pool activeChannels \<sigma> = Some (rs, \<sigma>') \<longrightarrow> poolRun session activeChannels \<sigma> rs \<sigma>')"

fun sequentialPool :: "'s Session \<Rightarrow> 's scheduler" where
  "sequentialPool session [] \<sigma> = Some ([], \<sigma>)"
| "sequentialPool session (channel # channels) \<sigma> =
     (case processChannel session channel \<sigma> of
        None \<Rightarrow> None
      | Some (r, \<sigma>') \<Rightarrow>
          (case sequentialPool session channels \<sigma>' of
             None \<Rightarrow> None
           | Some (rs, \<sigma>'') \<Rightarrow> Some (r # rs, \<sigma>'')))"

text \<open>
  The names of the channels whose workers have delivered their result, and the invariant
  of the pool: the permits taken are those of the workers that hold one, at most
  \<open>maxConcurrentChannels\<close>; the wait group counts the unfinished workers; the results
  sent so far are one for each worker that has delivered; \<open>results\<close> is closed only
  when the wait group is at zero, and the \<open>range\<close> loop ends only on the closed and
  empty channel.
\<close>

definition deliveredNames :: "Channel list \<Rightarrow> worker list \<Rightarrow> string list" where
  "deliveredNames activeChannels ws =
     map (\<lambda>(channel, w). Name channel) (filter (\<lambda>(channel, w). delivered w) (zip activeChannels ws))"

definition poolInv :: "Channel list \<Rightarrow> 's Pool \<Rightarrow> bool" where
  "poolInv activeChannels p \<longleftrightarrow>
     length (workers p) = length activeChannels
     \<and> semaphore p = length (filter holdsPermit (workers p))
     \<and> semaphore p \<le> maxConcurrentChannels
     \<and> wg p = length (filter (\<lambda>w. w \<noteq> Finished) (workers p))
     \<and> mset (map channelName (received p @ results p))
         = mset (deliveredNames activeChannels (workers p))
     \<and> (resultsClosed p \<longrightarrow> wg p = 0)
     \<and> (rangeDone p \<longrightarrow> resultsClosed p \<and> results p = [])"


text \<open>The pool with the first \<open>k\<close> workers finished and their results in the buffer.\<close>

definition served :: "Channel list \<Rightarrow> nat \<Rightarrow> channelCountResult list \<Rightarrow> 's \<Rightarrow> 's Pool" where
  "served activeChannels k rs \<sigma> =
     \<lparr>workers = replicate k Finished @ replicate (length activeChannels - k) Waiting,
      semaphore = 0, results = rs, wg = length activeChannels - k, resultsClosed = False,
      received = [], rangeDone = False, world = \<sigma>\<rparr>"


text \<open>
  A simulated world for concrete runs: its state is the clock; every request takes one
  second and is answered from fixed data, the messages of a channel by the cursor.
\<close>

definition simSession ::
  "(error + Member list) \<Rightarrow> (error + Channel list) \<Rightarrow> (string \<Rightarrow> string \<Rightarrow> error + Message list)
     \<Rightarrow> int Session" where
  "simSession members channels messages =
     \<lparr>GuildMembers = (\<lambda>t guildID after limit. Some (members, t + 1000000000)),
      GuildChannels = (\<lambda>t guildID. Some (channels, t + 1000000000)),
      ChannelMessages =
        (\<lambda>t channelID limit beforeID. Some (messages channelID beforeID, t + 1000000000))\<rparr>"

definition simClock :: "int Clock" where
  "simClock = \<lparr>Now = (\<lambda>t. t), Sleep = (\<lambda>t d. t + d)\<rparr>"

subsection \<open>\<open>updateMessageCount\<close>\<close>

definition updateMessageCount ::
  "'s Session \<Rightarrow> 's Clock \<Rightarrow> 's scheduler \<Rightarrow> Config \<Rightarrow> 's \<times> Exporter \<Rightarrow> ('s \<times> Exporter) option"
where
  "updateMessageCount session clock pool config = (\<lambda>(\<sigma>, x).
     let startTime = Now clock \<sigma>
     in case GuildChannels session \<sigma> (ServerID config) of
          None \<Rightarrow> None
        | Some (Inl e, \<sigma>1) \<Rightarrow> Some (\<sigma>1, Printf (FailedToGetGuildChannels e) x)
        | Some (Inr channels, \<sigma>1) \<Rightarrow>
            (case filterChannels config channels of
               (activeChannels, skipped) \<Rightarrow>
                 (let x1 = x\<lparr>logged := logged x @ skipped\<rparr>
                  in if length activeChannels = 0 then Some (\<sigma>1, Printf NoActiveChannels x1)
                     else
                       (let x2 = Printf (ProcessingChannels (int (length activeChannels))
                                          maxConcurrentChannels) x1
                        in case pool activeChannels \<sigma>1 of
                             None \<Rightarrow> None
                           | Some (rs, \<sigma>2) \<Rightarrow>
                               (case collectResults rs x2 of
                                  (successCount, errorCount, x3) \<Rightarrow>
                                    (let elapsed = Now clock \<sigma>2 - startTime
                                     in Some (\<sigma>2, Printf (UpdateCompleted elapsed
                                                successCount errorCount) x3)))))))"

subsection \<open>The scheduler: \<open>startMetricsCollector\<close>\<close>

text \<open>
  The goroutine that \<open>startMetricsCollector\<close> starts loops without an exit. With the
  number \<open>n\<close> of iterations as a parameter, \<open>startMetricsCollector n\<close> is the state
  after the first \<open>n\<close> iterations of this loop, in which iteration \<open>n\<close> starts
  (\<open>None\<close> when one of these iterations does not return).
\<close>

fun startMetricsCollector ::
  "nat \<Rightarrow> 's Session \<Rightarrow> 's Clock \<Rightarrow> 's scheduler \<Rightarrow> Config \<Rightarrow> 's \<times> Exporter
     \<Rightarrow> ('s \<times> Exporter) option"
where
  "startMetricsCollector 0 session clock pool config s = Some s"
| "startMetricsCollector (Suc n) session clock pool config s =
     (case updateMemberCount session (ServerID config) s of
        None \<Rightarrow> None
      | Some s1 \<Rightarrow>
          (case updateMessageCount session clock pool config s1 of
             None \<Rightarrow> None
           | Some (\<sigma>2, x2) \<Rightarrow>
               startMetricsCollector n session clock pool config
                 (Sleep clock \<sigma>2 defaultUpdateInterval, x2)))"

subsection \<open>\<open>loadConfig\<close> and \<open>main\<close>\<close>

text \<open>
  The configuration library, the constructor of the session and the HTTP server are
  outside the program: \<open>ReadInConfig\<close> gives an error or none, \<open>GetString\<close> the value of a
  key (empty when the key is absent), \<open>NewSession\<close> the error of \<open>discordgo.New\<close> if any,
  and \<open>ListenAndServe\<close> the error the server returns with, \<open>None\<close> when it serves for
  ever.
\<close>

record Viper =
  ReadInConfig :: "error option"
  GetString :: "string \<Rightarrow> string"

definition loadConfig :: "Viper \<Rightarrow> error + Config" where
  "loadConfig viper =
     (case ReadInConfig viper of
        Some e \<Rightarrow> Inl (''error reading config file: '' @ e)
      | None \<Rightarrow>
          (let config = \<lparr>Token = GetString viper ''token'',
                         ServerID = GetString viper ''serverID'',
                         ExcludedChannels =
                           parseExcludedChannels (GetString viper ''excludeChannels'')\<rparr>
           in if Token config = [] then Inl ''Discord token is required''
              else if ServerID config = [] then Inl ''serverID is required''
              else Inr config))"

record System =
  viper :: Viper
  NewSession :: "string \<Rightarrow> error option"
  ListenAndServe :: "string \<Rightarrow> error option"

definition defaultMetricsPort :: string where
  "defaultMetricsPort = '':2112''"

text \<open>
  \<open>log.Fatalf\<close> writes its entry and exits with status 1. \<open>main\<close> ends in \<open>Exit\<close>, or it
  has started the collector with the configuration and serves (\<open>Serving\<close>); both carry
  what \<open>main\<close> has logged.
\<close>

datatype process = Exit int "logEntry list" | Serving Config "logEntry list"

definition main :: "System \<Rightarrow> process" where
  "main sys =
     (case loadConfig (viper sys) of
        Inl e \<Rightarrow> Exit 1 [FailedToLoadConfig e]
      | Inr config \<Rightarrow>
          (let l1 = [ConfigurationLoaded (ServerID config),
                     ExcludedChannelsCount (int (card (ExcludedChannels config)))]
           in case NewSession sys (''Bot '' @ Token config) of
                Some e \<Rightarrow> Exit 1 (l1 @ [FailedToCreateSession e])
              | None \<Rightarrow>
                  (let l2 = l1 @ [SessionCreated, CollectorStarted defaultUpdateInterval,
                                  StartingHTTPServer defaultMetricsPort]
                   in case ListenAndServe sys defaultMetricsPort of
                        Some e \<Rightarrow> Exit 1 (l2 @ [FailedToStartHTTPServer e])
                      | None \<Rightarrow> Serving config l2)))"

subsection \<open>The earlier revisions\<close>

text \<open>
  The oldest revision has no configuration of the exclusions, no filter on the kind of
  channel and no function \<open>countChannelMessages\<close>: \<open>updateMessageCount\<close> counts the
  channels one after the other, with the pagination loop inline, and ends the loop of a
  channel at a failed request with \<open>break\<close>, so that it publishes what it has counted
  so far. In both of its functions a failed first request ends in \<open>log.Fatalf\<close>, which
  exits the process: their result is an \<open>outcome\<close>.
\<close>

datatype 'a outcome = Returned 'a | Fatal 'a

definition updateMemberCount_v1 ::
  "'s Session \<Rightarrow> string \<Rightarrow> 's \<times> Exporter \<Rightarrow> ('s \<times> Exporter) outcome option" where
  "updateMemberCount_v1 discordSession serverID = (\<lambda>(\<sigma>, x).
     case GuildMembers discordSession \<sigma> serverID [] 1000 of
       None \<Rightarrow> None
     | Some (Inl e, \<sigma>') \<Rightarrow> Some (Fatal (\<sigma>', Printf (FailedToGetGuildMembers e) x))
     | Some (Inr members, \<sigma>') \<Rightarrow>
         (let memberCount = int (length members)
          in Some (Returned (\<sigma>', Printf (MemberCount memberCount)
                                    (x\<lparr>memberCountGauge := float64 memberCount\<rparr>)))))"

definition excludedChannels_v1 :: "string set" where
  "excludedChannels_v1 =
     {[CHR 0xE3, CHR 0x83, CHR 0x91, CHR 0xE3, CHR 0x83, CHR 0x80, CHR 0xE3, CHR 0x83, CHR 0xAF,
       CHR 0xE3, CHR 0x83, CHR 0xB3, CHR 0xE9, CHR 0x83, CHR 0xA8, CHR 0xE5, CHR 0xB1, CHR 0x8B],
      [CHR 0xE5, CHR 0x85, CHR 0xA5, CHR 0xE5, CHR 0xAE, CHR 0xA4, CHR 0xE9, CHR 0x80, CHR 0x9A,
       CHR 0xE7, CHR 0x9F, CHR 0xA5]}"

partial_function (option) paginate_v1 ::
  "'s Session \<Rightarrow> Channel \<Rightarrow> string \<Rightarrow> int \<Rightarrow> 's \<times> Exporter \<Rightarrow> (int \<times> 's \<times> Exporter) option"
where
  "paginate_v1 discordSession channel lastMessageID totalMessageCount s =
     (case ChannelMessages discordSession (fst s) (Channel.ID channel) 100 lastMessageID of
        None \<Rightarrow> None
      | Some (Inl e, \<sigma>') \<Rightarrow>
          Some (totalMessageCount, \<sigma>',
                Printf (FailedToGetMessages (Channel.ID channel) e) (snd s))
      | Some (Inr messages, \<sigma>') \<Rightarrow>
          (let messageCount = int (length messages);
               totalMessageCount' = totalMessageCount + messageCount
           in if messageCount < 100 then Some (totalMessageCount', \<sigma>', snd s)
              else paginate_v1 discordSession channel
                     (Message.ID (messages ! nat (messageCount - 1))) totalMessageCount'
                     (\<sigma>', snd s)))"

declare paginate_v1.simps [code]

fun countChannels_v1 :: "'s Session \<Rightarrow> Channel list \<Rightarrow> 's \<times> Exporter \<Rightarrow> ('s \<times> Exporter) option"
where
  "countChannels_v1 discordSession [] s = Some s"
| "countChannels_v1 discordSession (channel # channels) s =
     (if Name channel \<in> excludedChannels_v1 then countChannels_v1 discordSession channels s
      else
        (case paginate_v1 discordSession channel [] 0 s of
           None \<Rightarrow> None
         | Some (totalMessageCount, \<sigma>', x') \<Rightarrow>
             countChannels_v1 discordSession channels
               (\<sigma>', Printf (MessageCount (Name channel) totalMessageCount)
                      (x'\<lparr>messageCountGauge :=
                            (messageCountGauge x')(Name channel \<mapsto> float64 totalMessageCount)\<rparr>))))"

definition updateMessageCount_v1 ::
  "'s Session \<Rightarrow> string \<Rightarrow> 's \<times> Exporter \<Rightarrow> ('s \<times> Exporter) outcome option" where
  "updateMessageCount_v1 discordSession serverID = (\<lambda>(\<sigma>, x).
     case GuildChannels discordSession \<sigma> serverID of
       None \<Rightarrow> None
     | Some (Inl e, \<sigma>') \<Rightarrow> Some (Fatal (\<sigma>', Printf (FailedToGetGuildChannels e) x))
     | Some (Inr channels, \<sigma>') \<Rightarrow>
         map_option Returned (countChannels_v1 discordSession channels (\<sigma>', x)))"

text \<open>
  The intermediate revision has the configuration, \<open>updateMemberCount\<close> and
  \<open>countChannelMessages\<close> of the newest one; its \<open>updateMessageCount\<close> counts the
  channels one after the other and has no filter on the kind of channel.
\<close>

fun countChannels_v2 ::
  "'s Session \<Rightarrow> Config \<Rightarrow> Channel list \<Rightarrow> 's \<times> Exporter \<Rightarrow> ('s \<times> Exporter) option"
where
  "countChannels_v2 session config [] s = Some s"
| "countChannels_v2 session config (channel # channels) s =
     (if Name channel \<in> ExcludedChannels config
      then countChannels_v2 session config channels
             (fst s, Printf (SkippingExcludedChannel (Name channel)) (snd s))
      else
        (case countChannelMessages session (Channel.ID channel) (fst s) of
           None \<Rightarrow> None
         | Some ((totalCount, Some e), \<sigma>') \<Rightarrow>
             countChannels_v2 session config channels
               (\<sigma>', Printf (FailedToCountMessages (Name channel) e) (snd s))
         | Some ((totalCount, None), \<sigma>') \<Rightarrow>
             countChannels_v2 session config channels
               (\<sigma>', Printf (ChannelMessageCount (Name channel) totalCount)
                      ((snd s)\<lparr>messageCountGauge :=
                            (messageCountGauge (snd s))(Name channel \<mapsto> float64 totalCount)\<rparr>))))"

definition updateMessageCount_v2 ::
  "'s Session \<Rightarrow> Config \<Rightarrow> 's \<times> Exporter \<Rightarrow> ('s \<times> Exporter) option" where
  "updateMessageCount_v2 session config = (\<lambda>(\<sigma>, x).
     case GuildChannels session \<sigma> (ServerID config) of
       None \<Rightarrow> None
     | Some (Inl e, \<sigma>') \<Rightarrow> Some (\<sigma>', Printf (FailedToGetGuildChannels e) x)
     | Some (Inr channels, \<sigma>') \<Rightarrow> countChannels_v2 session config channels (\<sigma>', x))"



subsection \<open>Example worlds\<close>

text \<open>
  Two simulated guilds for concrete runs. In \<open>twoGenerals\<close> two text channels share the
  name ``general''; the messages of channel 1 cannot be fetched, channel 2 has five. In
  \<open>exampleGuild\<close> there are three members, the text channels ``general'' (130
  messages, in two pages), ``general-archive'' (7 messages) and ``random'' (whose
  messages cannot be fetched) and the voice channel ``Lounge''; \<open>exampleConfig\<close> excludes
  ``general-archive''.
\<close>

definition twoGenerals :: "int Session" where
  "twoGenerals =
     simSession (Inl ''HTTP 503'')
       (Inr [\<lparr>Channel.ID = ''1'', Name = ''general'', Type = 0\<rparr>,
             \<lparr>Channel.ID = ''2'', Name = ''general'', Type = 0\<rparr>])
       (\<lambda>channelID cursor.
          if channelID = ''1'' then Inl ''HTTP 500''
          else Inr (replicate 5 \<lparr>Message.ID = ''m''\<rparr>))"

definition exampleGuild :: "int Session" where
  "exampleGuild =
     simSession (Inr (replicate 3 \<lparr>Nick = ''n''\<rparr>))
       (Inr [\<lparr>Channel.ID = ''1'', Name = ''general'', Type = 0\<rparr>,
             \<lparr>Channel.ID = ''2'', Name = ''general-archive'', Type = 0\<rparr>,
             \<lparr>Channel.ID = ''3'', Name = ''Lounge'', Type = 2\<rparr>,
             \<lparr>Channel.ID = ''4'', Name = ''random'', Type = 0\<rparr>])
       (\<lambda>channelID cursor.
          if channelID = ''1'' \<and> cursor = [] then Inr (replicate 100 \<lparr>Message.ID = ''m100''\<rparr>)
          else if channelID = ''1'' then Inr (replicate 30 \<lparr>Message.ID = ''m130''\<rparr>)
          else if channelID = ''4'' then Inl ''HTTP 500''
          else Inr (replicate 7 \<lparr>Message.ID = ''m7''\<rparr>))"

definition exampleConfig :: Config where
  "exampleConfig =
     \<lparr>Token = ''t'', ServerID = ''g'',
      ExcludedChannels = parseExcludedChannels ''general-archive''\<rparr>"


text \<open>
  In \<open>outage\<close> every request fails; in \<open>enumerationOutage\<close> the members can be
  fetched and nothing else. \<open>portInUse\<close> is a system whose configuration loads and
  whose HTTP server cannot listen.
\<close>

definition outage :: "int Session" where
  "outage = simSession (Inl ''HTTP 503'') (Inl ''HTTP 503'') (\<lambda>channelID cursor. Inl ''HTTP 503'')"

definition enumerationOutage :: "int Session" where
  "enumerationOutage =
     simSession (Inr (replicate 3 \<lparr>Nick = ''n''\<rparr>)) (Inl ''HTTP 503'')
       (\<lambda>channelID cursor. Inl ''HTTP 503'')"

definition portInUse :: System where
  "portInUse =
     \<lparr>viper = \<lparr>ReadInConfig = None,
               GetString = (\<lambda>key. if key = ''token'' then ''t''
                                   else if key = ''serverID'' then ''g'' else [])\<rparr>,
      NewSession = (\<lambda>token. None),
      ListenAndServe = (\<lambda>addr. Some ''listen tcp :2112: bind: address already in use'')\<rparr>"

text \<open>
  In \<open>brokenSecondPage\<close> the only channel answers with one full page and then fails;
  in \<open>voiceOnly\<close> the only channel is a voice channel.
\<close>

definition brokenSecondPage :: "int Session" where
  "brokenSecondPage =
     simSession (Inr []) (Inr [\<lparr>Channel.ID = ''1'', Name = ''general'', Type = 0\<rparr>])
       (\<lambda>channelID cursor.
          if cursor = [] then Inr (replicate 100 \<lparr>Message.ID = ''m100''\<rparr>) else Inl ''HTTP 500'')"

definition voiceOnly :: "int Session" where
  "voiceOnly =
     simSession (Inr []) (Inr [\<lparr>Channel.ID = ''3'', Name = ''Lounge'', Type = 2\<rparr>])
       (\<lambda>channelID cursor. Inr [])"

section \<open>Properties\<close>

subsection \<open>The Exclusion Set\<close>

lemma fold_insert_trimmed:
  "fold (\<lambda>name excluded.
           let trimmedName = f name
           in if trimmedName \<noteq> [] then insert trimmedName excluded else excluded) names A
   = A \<union> {t \<in> f ` set names. t \<noteq> []}"
  by (induction names arbitrary: A) (auto simp: Let_def)

lemma TrimSpace_Nil: "TrimSpace [] = []"
  by (simp add: TrimSpace_def TrimLeft.simps TrimRight.simps leadingSpace_def
      trailingSpace_def whiteSpace_def)

lemma Split_Nil: "Split [] sep = [[]]"
  by simp

text \<open>
  C9: for every value of \<open>excludeChannels\<close> the parsed Exclusion Set is exactly the set of
  the comma-separated components, each trimmed of surrounding white space, without the
  components that are empty after trimming; the empty string gives the empty set.
\<close>

theorem parseExcludedChannels_spec:
  "parseExcludedChannels channelsStr = spec_ExclusionSet channelsStr
   \<and> parseExcludedChannels [] = {}"
proof
  show "parseExcludedChannels channelsStr = spec_ExclusionSet channelsStr"
  proof (cases "channelsStr = []")
    case True
    then show ?thesis
      by (simp add: parseExcludedChannels_def spec_ExclusionSet_def TrimSpace_Nil)
  next
    case False
    then show ?thesis
      by (simp add: parseExcludedChannels_def spec_ExclusionSet_def fold_insert_trimmed)
  qed
next
  show "parseExcludedChannels [] = {}"
    by (simp add: parseExcludedChannels_def)
qed

lemma parseExcludedChannels_example:
  "parseExcludedChannels '' general-archive,, bots ,  '' = {''general-archive'', ''bots''}"
  by code_simp


subsection \<open>The Paginated Counter\<close>

lemma countLoop_error:
  "ChannelMessages session \<sigma> channelID maxMessagesPerRequest cursor = Some (Inl e, \<sigma>') \<Longrightarrow>
   countLoop session channelID cursor sofar \<sigma>
     = Some ((0, Some (''failed to get messages: '' @ e)), \<sigma>')"
  by (subst countLoop.simps) simp

lemma countLoop_short:
  "ChannelMessages session \<sigma> channelID maxMessagesPerRequest cursor = Some (Inr ms, \<sigma>') \<Longrightarrow>
   length ms < 100 \<Longrightarrow>
   countLoop session channelID cursor sofar \<sigma> = Some ((sofar + int (length ms), None), \<sigma>')"
  by (subst countLoop.simps) (simp add: maxMessagesPerRequest_def)

lemma countLoop_full:
  "ChannelMessages session \<sigma> channelID maxMessagesPerRequest cursor = Some (Inr ms, \<sigma>') \<Longrightarrow>
   100 \<le> length ms \<Longrightarrow>
   countLoop session channelID cursor sofar \<sigma> =
     countLoop session channelID (Message.ID (ms ! (length ms - 1))) (sofar + int (length ms)) \<sigma>'"
  by (subst countLoop.simps) (simp add: maxMessagesPerRequest_def Let_def nat_diff_distrib')

text \<open>One round of the loop, in the terms of the worker pool.\<close>

lemma countLoop_afterPage:
  "countLoop session channelID cursor sofar \<sigma> =
     (case ChannelMessages session \<sigma> channelID maxMessagesPerRequest cursor of
        None \<Rightarrow> None
      | Some (answer, \<sigma>') \<Rightarrow>
          (case afterPage cursor sofar answer of
             Sending n e \<Rightarrow> Some ((n, e), \<sigma>')
           | Counting cursor' sofar' \<Rightarrow> countLoop session channelID cursor' sofar' \<sigma>'
           | w \<Rightarrow> None))"
  by (subst countLoop.simps)
    (simp add: afterPage_def Let_def split: option.splits sum.splits prod.splits)

lemma paged_ChannelMessages:
  "ChannelMessages (paged pages) k channelID limit cursor = Some (pages k, Suc k)"
  by (simp add: paged_def)

text \<open>
  After \<open>n\<close> full pages the loop is at request \<open>k + n\<close>, with the lengths of these pages
  added to the sofar.
\<close>

lemma countLoop_paged_skip:
  "(\<forall>j<n. \<exists>p. pages (k + j) = Inr p \<and> 100 \<le> length p) \<Longrightarrow>
   \<exists>cursor'. countLoop (paged pages) channelID cursor sofar k =
     countLoop (paged pages) channelID cursor'
       (sofar + (\<Sum>j<n. case pages (k + j) of Inr p \<Rightarrow> int (length p) | Inl e \<Rightarrow> 0)) (k + n)"
proof (induction n arbitrary: k cursor sofar)
  case 0
  then show ?case by auto
next
  case (Suc n)
  from Suc.prems obtain p where p: "pages k = Inr p" "100 \<le> length p"
    by (metis add.right_neutral zero_less_Suc)
  have rest: "\<forall>j<n. \<exists>q. pages (Suc k + j) = Inr q \<and> 100 \<le> length q"
    using Suc.prems by (metis Suc_less_eq add_Suc_shift)
  have step: "countLoop (paged pages) channelID cursor sofar k =
    countLoop (paged pages) channelID (Message.ID (p ! (length p - 1))) (sofar + int (length p)) (Suc k)"
    using p by (intro countLoop_full) (simp_all add: paged_ChannelMessages)
  from Suc.IH [OF rest] obtain cursor' where
    "countLoop (paged pages) channelID (Message.ID (p ! (length p - 1))) (sofar + int (length p)) (Suc k) =
     countLoop (paged pages) channelID cursor'
       (sofar + int (length p)
         + (\<Sum>j<n. case pages (Suc k + j) of Inr p \<Rightarrow> int (length p) | Inl e \<Rightarrow> 0)) (Suc k + n)"
    by blast
  moreover have "(\<Sum>j<Suc n. case pages (k + j) of Inr p \<Rightarrow> int (length p) | Inl e \<Rightarrow> 0)
     = int (length p) + (\<Sum>j<n. case pages (Suc k + j) of Inr p \<Rightarrow> int (length p) | Inl e \<Rightarrow> 0)"
    using p by (simp add: sum.lessThan_Suc_shift del: sum.lessThan_Suc)
  ultimately show ?case using step by (auto simp: add.assoc)
qed

lemma sum_full_pages:
  "(\<forall>j<n. \<exists>p. pages j = Inr p \<and> length p = 100) \<Longrightarrow>
   (\<Sum>j<n. case pages j of Inr p \<Rightarrow> int (length p) | Inl e \<Rightarrow> 0) = 100 * int n"
  by (induction n) auto

text \<open>
  C2: when the upstream answers with \<open>n\<close> pages of exactly 100 entries and then a page of
  \<open>r < 100\<close> entries, \<open>countChannelMessages\<close> returns the sofar \<open>100 * n + r\<close> without an
  error, and it has issued exactly \<open>n + 1\<close> requests: it stops at the first page shorter
  than 100, an empty one included.
\<close>

theorem countChannelMessages_total:
  assumes full: "\<forall>j<n. \<exists>p. pages j = Inr p \<and> length p = 100"
    and last: "pages n = Inr lastPage"
    and short: "length lastPage = r" "r < 100"
  shows "countChannelMessages (paged pages) channelID 0
           = Some ((100 * int n + int r, None), Suc n)"
proof -
  have "\<forall>j<n. \<exists>p. pages (0 + j) = Inr p \<and> 100 \<le> length p"
    using full by auto
  from countLoop_paged_skip [OF this] obtain cursor' where
    "countLoop (paged pages) channelID [] 0 0 =
     countLoop (paged pages) channelID cursor'
       (0 + (\<Sum>j<n. case pages (0 + j) of Inr p \<Rightarrow> int (length p) | Inl e \<Rightarrow> 0)) (0 + n)"
    by blast
  then have "countLoop (paged pages) channelID [] 0 0 =
     countLoop (paged pages) channelID cursor' (100 * int n) n"
    using sum_full_pages [OF full] by simp
  also have "\<dots> = Some ((100 * int n + int (length lastPage), None), Suc n)"
    using last short by (intro countLoop_short) (simp_all add: paged_ChannelMessages)
  finally show ?thesis
    using short by (simp add: countChannelMessages_def)
qed

theorem countChannelMessages_total_witness:
  "countChannelMessages
     (paged (\<lambda>k. if k < 2 then Inr (replicate 100 \<lparr>Message.ID = ''m''\<rparr>)
                 else Inr (replicate 30 \<lparr>Message.ID = ''m''\<rparr>))) ''c1'' 0
   = Some ((230, None), 3)
   \<and> countChannelMessages (paged (\<lambda>k. Inr [])) ''c2'' 0 = Some ((0, None), 1)"
proof
  show "countChannelMessages
     (paged (\<lambda>k. if k < 2 then Inr (replicate 100 \<lparr>Message.ID = ''m''\<rparr>)
                 else Inr (replicate 30 \<lparr>Message.ID = ''m''\<rparr>))) ''c1'' 0
   = Some ((230, None), 3)"
    using countChannelMessages_total
      [of 2 "\<lambda>k. if k < 2 then Inr (replicate 100 \<lparr>Message.ID = ''m''\<rparr>)
                 else Inr (replicate 30 \<lparr>Message.ID = ''m''\<rparr>)"
          "replicate 30 \<lparr>Message.ID = ''m''\<rparr>" 30 "''c1''"]
    by (simp add: numeral_3_eq_3)
next
  show "countChannelMessages (paged (\<lambda>k. Inr [])) ''c2'' 0 = Some ((0, None), 1)"
    using countChannelMessages_total [of 0 "\<lambda>k. Inr []" "[]" 0 "''c2''"]
    by simp
qed

text \<open>
  C3: when the request at position \<open>i\<close> fails, after \<open>i\<close> full pages, the counter returns
  the wrapped error with the count 0; the \<open>i\<close> pages already counted give no partial
  sofar, and the failed request is not repeated (\<open>i + 1\<close> requests were issued).
\<close>

theorem countChannelMessages_failed:
  assumes full: "\<forall>j<i. \<exists>p. pages j = Inr p \<and> 100 \<le> length p"
    and failure: "pages i = Inl e"
  shows "countChannelMessages (paged pages) channelID 0
           = Some ((0, Some (''failed to get messages: '' @ e)), Suc i)"
proof -
  have "\<forall>j<i. \<exists>p. pages (0 + j) = Inr p \<and> 100 \<le> length p"
    using full by auto
  from countLoop_paged_skip [OF this, of channelID "[]" 0] obtain cursor' sofar' where
    "countLoop (paged pages) channelID [] 0 0 = countLoop (paged pages) channelID cursor' sofar' i"
    by auto
  also have "\<dots> = Some ((0, Some (''failed to get messages: '' @ e)), Suc i)"
    using failure by (intro countLoop_error) (simp add: paged_ChannelMessages)
  finally show ?thesis
    by (simp add: countChannelMessages_def)
qed

theorem countChannelMessages_failed_witness:
  "countChannelMessages
     (paged (\<lambda>k. if k < 2 then Inr (replicate 100 \<lparr>Message.ID = ''m''\<rparr>) else Inl ''HTTP 500''))
     ''c1'' 0
   = Some ((0, Some ''failed to get messages: HTTP 500''), 3)"
  using countChannelMessages_failed
    [of 2 "\<lambda>k. if k < 2 then Inr (replicate 100 \<lparr>Message.ID = ''m''\<rparr>) else Inl ''HTTP 500''"
        "''HTTP 500''" "''c1''"]
  by (simp add: numeral_3_eq_3)

lemma countLoop_paged_never:
  assumes full: "\<forall>k. \<exists>p. pages k = Inr p \<and> 100 \<le> length p"
  shows "countLoop (paged pages) channelID cursor sofar k = None"
proof (cases "countLoop (paged pages) channelID cursor sofar k")
  case None
  then show ?thesis .
next
  case (Some y)
  have "paged pages \<noteq> paged pages"
  proof (rule countLoop.raw_induct
      [where P = "\<lambda>session channelID cursor sofar k y. session \<noteq> paged pages", OF _ Some])
    fix f :: "nat Session \<Rightarrow> string \<Rightarrow> string \<Rightarrow> int \<Rightarrow> nat
                \<Rightarrow> ((int \<times> error option) \<times> nat) option"
    fix session channelID lastMessageID totalCount \<sigma> y
    assume IH: "\<And>session channelID cursor sofar k y.
      f session channelID cursor sofar k = Some y \<Longrightarrow> session \<noteq> paged pages"
    assume body:
      "(case ChannelMessages session \<sigma> channelID maxMessagesPerRequest lastMessageID of
          None \<Rightarrow> None
        | Some (Inl er, \<sigma>') \<Rightarrow> Some ((0, Some (''failed to get messages: '' @ er)), \<sigma>')
        | Some (Inr messages, \<sigma>') \<Rightarrow>
            (let messageCount = int (length messages);
                 totalCount' = totalCount + messageCount
             in if messageCount < maxMessagesPerRequest then Some ((totalCount', None), \<sigma>')
                else f session channelID
                       (Message.ID (messages ! nat (messageCount - 1))) totalCount' \<sigma>')) = Some y"
    show "session \<noteq> paged pages"
    proof
      assume eq: "session = paged pages"
      obtain p where p: "pages \<sigma> = Inr p" "100 \<le> length p"
        using full by blast
      from body eq p have "f (paged pages) channelID (Message.ID (p ! nat (int (length p) - 1)))
          (totalCount + int (length p)) (Suc \<sigma>) = Some y"
        by (simp add: paged_ChannelMessages maxMessagesPerRequest_def Let_def)
      from IH [OF this] show False by simp
    qed
  qed
  then show ?thesis by simp
qed

lemma countLoop_paged_returns:
  assumes stop: "case pages n of Inl e \<Rightarrow> True | Inr p \<Rightarrow> length p < 100"
  shows "\<exists>res. countLoop (paged pages) channelID [] 0 0 = Some res"
proof -
  define stops where "stops k = (case pages k of Inl e \<Rightarrow> True | Inr p \<Rightarrow> length p < 100)" for k
  define m where "m = (LEAST k. stops k)"
  have "stops n" using stop by (simp add: stops_def)
  then have m: "stops m"
    unfolding m_def by (rule LeastI)
  have before: "\<not> stops j" if "j < m" for j
    using that unfolding m_def by (rule not_less_Least)
  have "\<forall>j<m. \<exists>p. pages (0 + j) = Inr p \<and> 100 \<le> length p"
  proof (intro allI impI)
    fix j assume "j < m"
    then have "\<not> stops j" by (rule before)
    then show "\<exists>p. pages (0 + j) = Inr p \<and> 100 \<le> length p"
      by (cases "pages j") (simp_all add: stops_def)
  qed
  from countLoop_paged_skip [OF this, of channelID "[]" 0] obtain cursor' sofar' where
    skip: "countLoop (paged pages) channelID [] 0 0
             = countLoop (paged pages) channelID cursor' sofar' m"
    by auto
  show ?thesis
  proof (cases "pages m")
    case (Inl e)
    then have "countLoop (paged pages) channelID cursor' sofar' m
        = Some ((0, Some (''failed to get messages: '' @ e)), Suc m)"
      by (intro countLoop_error) (simp add: paged_ChannelMessages)
    with skip show ?thesis by simp
  next
    case (Inr p)
    with m have "length p < 100" by (simp add: stops_def)
    with Inr have "countLoop (paged pages) channelID cursor' sofar' m
        = Some ((sofar' + int (length p), None), Suc m)"
      by (intro countLoop_short) (simp_all add: paged_ChannelMessages)
    with skip show ?thesis by simp
  qed
qed

text \<open>
  C6: when some answer of the upstream is a page of fewer than 100 entries, the
  pagination loop returns; when every answer is a page of at least 100 entries it never
  returns, since the loop has no other bound. In full: it returns exactly when some
  answer is a short page or an error.
\<close>

theorem countChannelMessages_termination:
  "((\<exists>n p. pages n = Inr p \<and> length p < 100) \<longrightarrow>
      (\<exists>res. countChannelMessages (paged pages) channelID 0 = Some res))
   \<and> ((\<forall>k. \<exists>p. pages k = Inr p \<and> 100 \<le> length p) \<longrightarrow>
      countChannelMessages (paged pages) channelID 0 = None)
   \<and> ((\<exists>res. countChannelMessages (paged pages) channelID 0 = Some res) \<longleftrightarrow>
      (\<exists>n. case pages n of Inl e \<Rightarrow> True | Inr p \<Rightarrow> length p < 100))"
proof (intro conjI impI)
  assume "\<exists>n p. pages n = Inr p \<and> length p < 100"
  then obtain n p where "pages n = Inr p" "length p < 100" by blast
  then have "case pages n of Inl e \<Rightarrow> True | Inr p \<Rightarrow> length p < 100" by simp
  from countLoop_paged_returns [of pages n channelID, OF this]
  show "\<exists>res. countChannelMessages (paged pages) channelID 0 = Some res"
    by (simp add: countChannelMessages_def)
next
  assume "\<forall>k. \<exists>p. pages k = Inr p \<and> 100 \<le> length p"
  then show "countChannelMessages (paged pages) channelID 0 = None"
    by (simp add: countChannelMessages_def countLoop_paged_never)
next
  show "(\<exists>res. countChannelMessages (paged pages) channelID 0 = Some res) \<longleftrightarrow>
      (\<exists>n. case pages n of Inl e \<Rightarrow> True | Inr p \<Rightarrow> length p < 100)"
  proof
    assume returns: "\<exists>res. countChannelMessages (paged pages) channelID 0 = Some res"
    show "\<exists>n. case pages n of Inl e \<Rightarrow> True | Inr p \<Rightarrow> length p < 100"
    proof (rule ccontr)
      assume "\<not> (\<exists>n. case pages n of Inl e \<Rightarrow> True | Inr p \<Rightarrow> length p < 100)"
      then have "\<forall>k. \<exists>p. pages k = Inr p \<and> 100 \<le> length p"
        by (auto split: sum.splits simp: not_less) (metis not_less sum.exhaust sum.simps(5,6))
      then have "countChannelMessages (paged pages) channelID 0 = None"
        by (simp add: countChannelMessages_def countLoop_paged_never)
      with returns show False by simp
    qed
  next
    assume "\<exists>n. case pages n of Inl e \<Rightarrow> True | Inr p \<Rightarrow> length p < 100"
    then obtain n where "case pages n of Inl e \<Rightarrow> True | Inr p \<Rightarrow> length p < 100" ..
    from countLoop_paged_returns [of pages n channelID, OF this]
    show "\<exists>res. countChannelMessages (paged pages) channelID 0 = Some res"
      by (simp add: countChannelMessages_def)
  qed
qed

theorem countChannelMessages_termination_witness:
  "(\<exists>res. countChannelMessages
        (paged (\<lambda>k. if k < 2 then Inr (replicate 100 \<lparr>Message.ID = ''m''\<rparr>) else Inr []))
        ''c1'' 0 = Some res)
   \<and> countChannelMessages (paged (\<lambda>k. Inr (replicate 100 \<lparr>Message.ID = ''m''\<rparr>))) ''c1'' 0
       = None"
proof -
  let ?short = "\<lambda>k::nat. if k < 2 then Inr (replicate 100 \<lparr>Message.ID = ''m''\<rparr>)
                        else (Inr [] :: error + Message list)"
  let ?full = "\<lambda>k::nat. (Inr (replicate 100 \<lparr>Message.ID = ''m''\<rparr>) :: error + Message list)"
  have h1: "\<exists>n p. ?short n = Inr p \<and> length p < 100"
    by (rule exI [of _ 2]) simp
  have h2: "\<forall>k. \<exists>p. ?full k = Inr p \<and> 100 \<le> length p"
    by simp
  from h1 countChannelMessages_termination [of ?short "''c1''"]
  have r1: "\<exists>res. countChannelMessages (paged ?short) ''c1'' 0 = Some res"
    by blast
  from h2 countChannelMessages_termination [of ?full "''c1''"]
  have r2: "countChannelMessages (paged ?full) ''c1'' 0 = None"
    by blast
  from r1 r2 show ?thesis by (rule conjI)
qed

lemma countLoop_error_count:
  assumes run: "countLoop session channelID cursor sofar \<sigma> = Some y"
  shows "snd (fst y) \<noteq> None \<longrightarrow> fst (fst y) = 0"
proof (rule countLoop.raw_induct
    [where P = "\<lambda>session channelID cursor sofar \<sigma> y. snd (fst y) \<noteq> None \<longrightarrow> fst (fst y) = 0",
      OF _ run])
  fix f :: "'a Session \<Rightarrow> string \<Rightarrow> string \<Rightarrow> int \<Rightarrow> 'a \<Rightarrow> ((int \<times> error option) \<times> 'a) option"
  fix session channelID lastMessageID totalCount \<sigma> y
  assume IH: "\<And>session channelID cursor sofar \<sigma> y.
     f session channelID cursor sofar \<sigma> = Some y \<Longrightarrow> snd (fst y) \<noteq> None \<longrightarrow> fst (fst y) = 0"
  assume body:
    "(case ChannelMessages session \<sigma> channelID maxMessagesPerRequest lastMessageID of
        None \<Rightarrow> None
      | Some (Inl er, \<sigma>') \<Rightarrow> Some ((0, Some (''failed to get messages: '' @ er)), \<sigma>')
      | Some (Inr messages, \<sigma>') \<Rightarrow>
          (let messageCount = int (length messages);
               totalCount' = totalCount + messageCount
           in if messageCount < maxMessagesPerRequest then Some ((totalCount', None), \<sigma>')
              else f session channelID
                     (Message.ID (messages ! nat (messageCount - 1))) totalCount' \<sigma>')) = Some y"
  show "snd (fst y) \<noteq> None \<longrightarrow> fst (fst y) = 0"
    using body IH
    by (auto simp: Let_def split: option.splits sum.splits if_splits prod.splits)
qed

text \<open>
  C10: whenever \<open>countChannelMessages\<close> returns an error, against any upstream and after
  any number of pages, the count returned with it is 0.
\<close>

theorem countChannelMessages_error_count:
  "countChannelMessages session channelID \<sigma> = Some ((n, Some e), \<sigma>') \<Longrightarrow> n = 0"
  using countLoop_error_count [of session channelID "[]" 0 \<sigma> "((n, Some e), \<sigma>')"]
  by (simp add: countChannelMessages_def)

theorem countChannelMessages_error_count_witness:
  "\<exists>n. countChannelMessages
     (paged (\<lambda>k. if k < 2 then Inr (replicate 100 \<lparr>Message.ID = ''m''\<rparr>) else Inl ''HTTP 500''))
     ''c1'' 0 = Some ((n, Some ''failed to get messages: HTTP 500''), 3) \<and> n = 0"
proof -
  have run: "countChannelMessages
     (paged (\<lambda>k. if k < 2 then Inr (replicate 100 \<lparr>Message.ID = ''m''\<rparr>) else Inl ''HTTP 500''))
     ''c1'' 0 = Some ((0, Some ''failed to get messages: HTTP 500''), 3)"
    by (simp add: countChannelMessages_def countLoop.simps paged_def maxMessagesPerRequest_def)
  from countChannelMessages_error_count [OF run] run show ?thesis by simp
qed

subsection \<open>The worker pool\<close>

lemma count_update:
  "i < length xs \<Longrightarrow>
   length (filter P (xs[i := y])) + (if P (xs ! i) then 1 else 0)
     = length (filter P xs) + (if P y then 1 else 0)"
proof (induction xs arbitrary: i)
  case Nil
  then show ?case by simp
next
  case (Cons x xs)
  show ?case
  proof (cases i)
    case 0
    then show ?thesis by simp
  next
    case (Suc j)
    with Cons.prems have "j < length xs" by simp
    from Cons.IH [OF this] Suc show ?thesis by simp
  qed
qed

lemma deliveredNames_update_same:
  "i < length ws \<Longrightarrow> delivered (ws ! i) = delivered w \<Longrightarrow>
   deliveredNames cs (ws[i := w]) = deliveredNames cs ws"
proof (induction ws arbitrary: i cs)
  case Nil
  then show ?case by simp
next
  case (Cons a ws)
  show ?case
  proof (cases cs)
    case Nil
    then show ?thesis by (simp add: deliveredNames_def)
  next
    case (Cons c cs')
    show ?thesis
    proof (cases i)
      case 0
      with Cons.prems Cons show ?thesis by (simp add: deliveredNames_def)
    next
      case (Suc j)
      with Cons.prems have "deliveredNames cs' (ws[j := w]) = deliveredNames cs' ws"
        by (intro Cons.IH) simp_all
      with Suc Cons show ?thesis by (simp add: deliveredNames_def)
    qed
  qed
qed

lemma deliveredNames_update_new:
  "i < length ws \<Longrightarrow> i < length cs \<Longrightarrow> \<not> delivered (ws ! i) \<Longrightarrow> delivered w \<Longrightarrow>
   mset (deliveredNames cs (ws[i := w])) = add_mset (Name (cs ! i)) (mset (deliveredNames cs ws))"
proof (induction ws arbitrary: i cs)
  case Nil
  then show ?case by simp
next
  case (Cons a ws)
  from Cons.prems obtain c cs' where cs: "cs = c # cs'" by (cases cs) auto
  show ?case
  proof (cases i)
    case 0
    with Cons.prems cs show ?thesis by (simp add: deliveredNames_def)
  next
    case (Suc j)
    with Cons.prems cs have
      "mset (deliveredNames cs' (ws[j := w])) = add_mset (Name (cs' ! j)) (mset (deliveredNames cs' ws))"
      by (intro Cons.IH) simp_all
    with Suc cs show ?thesis by (simp add: deliveredNames_def)
  qed
qed

lemma deliveredNames_all:
  "length cs = length ws \<Longrightarrow> \<forall>w\<in>set ws. delivered w \<Longrightarrow> deliveredNames cs ws = map Name cs"
  by (induction cs ws rule: list_induct2) (simp_all add: deliveredNames_def)

lemma deliveredNames_none:
  "\<forall>w\<in>set ws. \<not> delivered w \<Longrightarrow> deliveredNames cs ws = []"
  by (auto simp: deliveredNames_def filter_empty_conv dest: set_zip_rightD)

lemma length_deliveredNames:
  "length cs = length ws \<Longrightarrow> length (deliveredNames cs ws) = length (filter delivered ws)"
  by (induction cs ws rule: list_induct2) (simp_all add: deliveredNames_def)

lemma poolInv_start: "poolInv activeChannels (startPool activeChannels \<sigma>)"
  by (simp add: poolInv_def startPool_def deliveredNames_none)

lemma afterPage_cases:
  "(\<exists>n e. afterPage lastMessageID totalCount answer = Sending n e)
   \<or> (\<exists>c n. afterPage lastMessageID totalCount answer = Counting c n)"
  by (cases answer) (simp_all add: afterPage_def Let_def)

lemma afterPage_holdsPermit: "holdsPermit (afterPage lastMessageID totalCount answer)"
  using afterPage_cases [of lastMessageID totalCount answer] by auto

lemma afterPage_not_delivered: "\<not> delivered (afterPage lastMessageID totalCount answer)"
  using afterPage_cases [of lastMessageID totalCount answer] by auto

lemma afterPage_not_Finished: "afterPage lastMessageID totalCount answer \<noteq> Finished"
  using afterPage_cases [of lastMessageID totalCount answer] by auto

lemma all_Finished:
  "length (filter (\<lambda>w. w \<noteq> Finished) ws) = 0 \<Longrightarrow> i < length ws \<Longrightarrow> ws ! i = Finished"
  by (auto simp: filter_empty_conv)

lemma poolInv_step:
  assumes step: "poolStep session activeChannels p p'" and inv: "poolInv activeChannels p"
  shows "poolInv activeChannels p'"
  using step
proof cases
  case (acquire i)
  from count_update [of i "workers p" holdsPermit "Counting [] 0"]
       count_update [of i "workers p" "\<lambda>w. w \<noteq> Finished" "Counting [] 0"]
       deliveredNames_update_same [of i "workers p" "Counting [] 0" activeChannels]
  show ?thesis using inv acquire by (auto simp: poolInv_def)
next
  case (request i lastMessageID totalCount answer \<sigma>')
  from count_update [of i "workers p" holdsPermit "afterPage lastMessageID totalCount answer"]
       count_update [of i "workers p" "\<lambda>w. w \<noteq> Finished" "afterPage lastMessageID totalCount answer"]
       deliveredNames_update_same [of i "workers p" "afterPage lastMessageID totalCount answer" activeChannels]
  show ?thesis using inv request
    by (auto simp: poolInv_def afterPage_holdsPermit afterPage_not_delivered afterPage_not_Finished)
next
  case (send i totalCount e)
  from count_update [of i "workers p" holdsPermit Releasing]
       count_update [of i "workers p" "\<lambda>w. w \<noteq> Finished" Releasing]
       deliveredNames_update_new [of i "workers p" activeChannels Releasing]
       all_Finished [of "workers p" i]
  show ?thesis using inv send by (auto simp: poolInv_def)
next
  case (release i)
  from count_update [of i "workers p" holdsPermit Finishing]
       count_update [of i "workers p" "\<lambda>w. w \<noteq> Finished" Finishing]
       deliveredNames_update_same [of i "workers p" Finishing activeChannels]
  show ?thesis using inv release by (auto simp: poolInv_def)
next
  case (wgDone i)
  from count_update [of i "workers p" holdsPermit Finished]
       count_update [of i "workers p" "\<lambda>w. w \<noteq> Finished" Finished]
       deliveredNames_update_same [of i "workers p" Finished activeChannels]
  show ?thesis using inv wgDone by (auto simp: poolInv_def)
next
  case close
  then show ?thesis using inv by (auto simp: poolInv_def)
next
  case (receive r rest)
  then show ?thesis using inv by (auto simp: poolInv_def)
next
  case rangeEnd
  then show ?thesis using inv by (auto simp: poolInv_def)
qed

lemma reachable_poolInv:
  "reachable session activeChannels \<sigma> p \<Longrightarrow> poolInv activeChannels p"
  unfolding reachable_def
  by (induction rule: rtranclp_induct) (auto intro: poolInv_start poolInv_step)

lemma holder_exists:
  "0 < length (filter P ws) \<Longrightarrow> \<exists>j<length ws. P (ws ! j)"
  by (metis filter_False in_set_conv_nth length_greater_0_conv)

lemma filter_pos: "i < length ws \<Longrightarrow> P (ws ! i) \<Longrightarrow> 0 < length (filter P ws)"
  by (metis filter_empty_conv length_greater_0_conv nth_mem)

lemma filter_less: "i < length ws \<Longrightarrow> \<not> P (ws ! i) \<Longrightarrow> length (filter P ws) < length ws"
  by (metis length_filter_less nth_mem)

lemma holder_step:
  assumes inv: "poolInv activeChannels p"
    and j: "j < length (workers p)" and holds: "holdsPermit (workers p ! j)"
    and responsive: "\<forall>i lastMessageID totalCount.
      i < length (workers p) \<and> workers p ! i = Counting lastMessageID totalCount \<longrightarrow>
      ChannelMessages session (world p) (Channel.ID (activeChannels ! i))
        maxMessagesPerRequest lastMessageID \<noteq> None"
  shows "\<exists>p'. poolStep session activeChannels p p'"
proof (cases "workers p ! j")
  case (Counting lastMessageID totalCount)
  with responsive j obtain answer \<sigma>' where
    "ChannelMessages session (world p) (Channel.ID (activeChannels ! j))
       maxMessagesPerRequest lastMessageID = Some (answer, \<sigma>')"
    by fastforce
  from poolStep.request [OF j Counting this] show ?thesis by blast
next
  case (Sending totalCount e)
  then have "\<not> delivered (workers p ! j)" by simp
  from filter_less [of j "workers p" delivered, OF j this] have "length (filter delivered (workers p)) < length (workers p)" .
  moreover have "length (received p @ results p) = length (filter delivered (workers p))"
    using inv length_deliveredNames [of activeChannels "workers p"]
    by (metis length_map poolInv_def size_mset)
  ultimately have "length (results p) < length activeChannels"
    using inv by (simp add: poolInv_def)
  from poolStep.send [OF j Sending this] show ?thesis by blast
next
  case Releasing
  from filter_pos [of j "workers p" holdsPermit, OF j holds] inv have "0 < semaphore p"
    by (simp add: poolInv_def)
  from poolStep.release [OF j Releasing this] show ?thesis by blast
qed (use holds in simp_all)

lemma pool_progress:
  assumes inv: "poolInv activeChannels p" and running: "\<not> rangeDone p"
    and responsive: "\<forall>i lastMessageID totalCount.
      i < length (workers p) \<and> workers p ! i = Counting lastMessageID totalCount \<longrightarrow>
      ChannelMessages session (world p) (Channel.ID (activeChannels ! i))
        maxMessagesPerRequest lastMessageID \<noteq> None"
  shows "\<exists>p'. poolStep session activeChannels p p'"
proof (cases "wg p = 0")
  case True
  show ?thesis
  proof (cases "resultsClosed p")
    case False
    from poolStep.close [OF True False] show ?thesis by blast
  next
    case closed: True
    show ?thesis
    proof (cases "results p")
      case Nil
      from poolStep.rangeEnd [OF Nil closed running] show ?thesis by blast
    next
      case (Cons r rest)
      from poolStep.receive [OF Cons] show ?thesis by blast
    qed
  qed
next
  case False
  with inv have "0 < length (filter (\<lambda>w. w \<noteq> Finished) (workers p))"
    by (simp add: poolInv_def)
  from holder_exists [of "\<lambda>w. w \<noteq> Finished" "workers p", OF this] obtain i where
    i: "i < length (workers p)" and unfinished: "workers p ! i \<noteq> Finished"
    by blast
  show ?thesis
  proof (cases "holdsPermit (workers p ! i)")
    case True
    from holder_step [OF inv i True responsive] show ?thesis .
  next
    case noPermit: False
    show ?thesis
    proof (cases "workers p ! i")
      case Waiting
      show ?thesis
      proof (cases "semaphore p < maxConcurrentChannels")
        case True
        from poolStep.acquire [OF i Waiting True] show ?thesis by blast
      next
        case False
        moreover have "semaphore p = length (filter holdsPermit (workers p))"
          using inv by (simp add: poolInv_def)
        ultimately have "0 < length (filter holdsPermit (workers p))"
          unfolding maxConcurrentChannels_def by linarith
        from holder_exists [of holdsPermit "workers p", OF this] obtain j where
          "j < length (workers p)" "holdsPermit (workers p ! j)"
          by blast
        from holder_step [OF inv this responsive] show ?thesis .
      qed
    next
      case Finishing
      from False have "0 < wg p" by simp
      from poolStep.wgDone [OF i Finishing this] show ?thesis by blast
    qed (use noPermit unfinished in simp_all)
  qed
qed

lemma drive_counting:
  assumes run: "countLoop session channelID cursor sofar \<sigma> = Some y"
  shows "\<forall>p i. channelID = Channel.ID (activeChannels ! i) \<and> i < length (workers p)
           \<and> workers p ! i = Counting cursor sofar \<and> world p = \<sigma> \<longrightarrow>
         (poolStep session activeChannels)\<^sup>*\<^sup>* p
           (p\<lparr>workers := (workers p)[i := Sending (fst (fst y)) (snd (fst y))],
              world := snd y\<rparr>)"
proof (rule countLoop.raw_induct
    [where P = "\<lambda>session channelID cursor sofar \<sigma> y.
       \<forall>p i. channelID = Channel.ID (activeChannels ! i) \<and> i < length (workers p)
           \<and> workers p ! i = Counting cursor sofar \<and> world p = \<sigma> \<longrightarrow>
         (poolStep session activeChannels)\<^sup>*\<^sup>* p
           (p\<lparr>workers := (workers p)[i := Sending (fst (fst y)) (snd (fst y))],
              world := snd y\<rparr>)", OF _ run])
  fix f :: "'a Session \<Rightarrow> string \<Rightarrow> string \<Rightarrow> int \<Rightarrow> 'a \<Rightarrow> ((int \<times> error option) \<times> 'a) option"
  fix session channelID lastMessageID totalCount \<sigma> y
  assume IH: "\<And>session channelID cursor sofar \<sigma> y.
     f session channelID cursor sofar \<sigma> = Some y \<Longrightarrow>
       \<forall>p i. channelID = Channel.ID (activeChannels ! i) \<and> i < length (workers p)
           \<and> workers p ! i = Counting cursor sofar \<and> world p = \<sigma> \<longrightarrow>
         (poolStep session activeChannels)\<^sup>*\<^sup>* p
           (p\<lparr>workers := (workers p)[i := Sending (fst (fst y)) (snd (fst y))],
              world := snd y\<rparr>)"
  assume body:
    "(case ChannelMessages session \<sigma> channelID maxMessagesPerRequest lastMessageID of
        None \<Rightarrow> None
      | Some (Inl er, \<sigma>') \<Rightarrow> Some ((0, Some (''failed to get messages: '' @ er)), \<sigma>')
      | Some (Inr messages, \<sigma>') \<Rightarrow>
          (let messageCount = int (length messages);
               totalCount' = totalCount + messageCount
           in if messageCount < maxMessagesPerRequest then Some ((totalCount', None), \<sigma>')
              else f session channelID
                     (Message.ID (messages ! nat (messageCount - 1))) totalCount' \<sigma>')) = Some y"
  show "\<forall>p i. channelID = Channel.ID (activeChannels ! i) \<and> i < length (workers p)
           \<and> workers p ! i = Counting lastMessageID totalCount \<and> world p = \<sigma> \<longrightarrow>
         (poolStep session activeChannels)\<^sup>*\<^sup>* p
           (p\<lparr>workers := (workers p)[i := Sending (fst (fst y)) (snd (fst y))],
              world := snd y\<rparr>)"
  proof (intro allI impI, elim conjE)
    fix p :: "'a Pool" and i
    assume cid: "channelID = Channel.ID (activeChannels ! i)" and i: "i < length (workers p)"
      and at: "workers p ! i = Counting lastMessageID totalCount" and w: "world p = \<sigma>"
    from body obtain answer \<sigma>1 where
      answer: "ChannelMessages session \<sigma> channelID maxMessagesPerRequest lastMessageID
                 = Some (answer, \<sigma>1)"
      by (cases "ChannelMessages session \<sigma> channelID maxMessagesPerRequest lastMessageID") auto
    let ?p1 = "p\<lparr>workers := (workers p)[i := afterPage lastMessageID totalCount answer],
                  world := \<sigma>1\<rparr>"
    have step: "poolStep session activeChannels p ?p1"
      using answer cid w by (intro poolStep.request [OF i at]) simp
    show "(poolStep session activeChannels)\<^sup>*\<^sup>* p
           (p\<lparr>workers := (workers p)[i := Sending (fst (fst y)) (snd (fst y))],
              world := snd y\<rparr>)"
    proof (cases "afterPage lastMessageID totalCount answer")
      case (Sending n e)
      with body answer have "y = ((n, e), \<sigma>1)"
        by (cases answer) (auto simp: afterPage_def Let_def split: if_splits)
      with step Sending show ?thesis by simp
    next
      case (Counting cursor' sofar')
      with body answer have "f session channelID cursor' sofar' \<sigma>1 = Some y"
        by (cases answer) (auto simp: afterPage_def Let_def split: if_splits)
      from IH [OF this, rule_format, of i ?p1] cid i Counting
      have "(poolStep session activeChannels)\<^sup>*\<^sup>* ?p1
           (?p1\<lparr>workers := (workers ?p1)[i := Sending (fst (fst y)) (snd (fst y))],
              world := snd y\<rparr>)"
        by simp
      then have "(poolStep session activeChannels)\<^sup>*\<^sup>* ?p1
           (p\<lparr>workers := (workers p)[i := Sending (fst (fst y)) (snd (fst y))],
              world := snd y\<rparr>)"
        by simp
      with step show ?thesis by (rule converse_rtranclp_into_rtranclp)
    qed (use afterPage_cases [of lastMessageID totalCount answer] in auto)
  qed
qed

lemma replicate_update:
  "(replicate k a @ replicate (Suc m) b)[k := c] = replicate k a @ c # replicate m b"
  by (simp add: list_update_append)

lemma serve_one:
  assumes k: "k < length activeChannels" and len: "length rs = k"
    and run: "processChannel session (activeChannels ! k) \<sigma> = Some (r, \<sigma>')"
  shows "(poolStep session activeChannels)\<^sup>*\<^sup>*
           (served activeChannels k rs \<sigma>) (served activeChannels (Suc k) (rs @ [r]) \<sigma>')"
proof -
  from k obtain m where m: "length activeChannels - k = Suc m"
    by (metis Suc_diff_Suc)
  then have m': "length activeChannels - Suc k = m" by simp
  from run obtain n e where
    count: "countLoop session (Channel.ID (activeChannels ! k)) [] 0 \<sigma> = Some ((n, e), \<sigma>')"
    and r: "r = \<lparr>channelName = Name (activeChannels ! k), count' = n, err = e\<rparr>"
    by (auto simp: processChannel_def countChannelMessages_def split: option.splits)
  let ?ws = "\<lambda>w. replicate k Finished @ w # replicate m Waiting"
  let ?p = "\<lambda>w sem res c \<sigma>. \<lparr>workers = ?ws w, semaphore = sem, results = res, wg = c,
      resultsClosed = False, received = [], rangeDone = False, world = \<sigma>\<rparr>"
  have start: "served activeChannels k rs \<sigma> = ?p Waiting 0 rs (Suc m) \<sigma>"
    by (simp add: served_def m)
  have finish: "served activeChannels (Suc k) (rs @ [r]) \<sigma>' = ?p Finished 0 (rs @ [r]) m \<sigma>'"
    by (simp add: served_def m' replicate_append_same)
  have at: "?ws w ! k = w" for w
    by (simp add: nth_append)
  have upd: "(?ws w)[k := w'] = ?ws w'" for w w'
    by (simp add: list_update_append)
  have klen: "k < length (?ws w)" for w
    by simp
  have s1: "poolStep session activeChannels (?p Waiting 0 rs (Suc m) \<sigma>)
              (?p (Counting [] 0) 1 rs (Suc m) \<sigma>)"
    using poolStep.acquire [of k "?p Waiting 0 rs (Suc m) \<sigma>" session activeChannels]
    by (simp add: at upd maxConcurrentChannels_def)
  have s2: "(poolStep session activeChannels)\<^sup>*\<^sup>* (?p (Counting [] 0) 1 rs (Suc m) \<sigma>)
              (?p (Sending n e) 1 rs (Suc m) \<sigma>')"
    using drive_counting [OF count, of activeChannels, rule_format,
        of k "?p (Counting [] 0) 1 rs (Suc m) \<sigma>"]
    by (simp add: at upd)
  have s3: "poolStep session activeChannels (?p (Sending n e) 1 rs (Suc m) \<sigma>')
              (?p Releasing 1 (rs @ [r]) (Suc m) \<sigma>')"
    using poolStep.send [of k "?p (Sending n e) 1 rs (Suc m) \<sigma>'" n e activeChannels session]
      k len
    by (simp add: at upd r)
  have s4: "poolStep session activeChannels (?p Releasing 1 (rs @ [r]) (Suc m) \<sigma>')
              (?p Finishing 0 (rs @ [r]) (Suc m) \<sigma>')"
    using poolStep.release [of k "?p Releasing 1 (rs @ [r]) (Suc m) \<sigma>'" session activeChannels]
    by (simp add: at upd)
  have s5: "poolStep session activeChannels (?p Finishing 0 (rs @ [r]) (Suc m) \<sigma>')
              (?p Finished 0 (rs @ [r]) m \<sigma>')"
    using poolStep.wgDone [of k "?p Finishing 0 (rs @ [r]) (Suc m) \<sigma>'" session activeChannels]
    by (simp add: at upd)
  from s1 s2 s3 s4 s5 show ?thesis
    unfolding start finish by (meson rtranclp.rtrancl_into_rtrancl converse_rtranclp_into_rtranclp)
qed

lemma serve_all:
  "sequentialPool session (drop k activeChannels) \<sigma> = Some (rs', \<sigma>') \<Longrightarrow>
   length rs = k \<Longrightarrow> k \<le> length activeChannels \<Longrightarrow>
   (poolStep session activeChannels)\<^sup>*\<^sup>*
     (served activeChannels k rs \<sigma>)
     (served activeChannels (length activeChannels) (rs @ rs') \<sigma>')"
proof (induction "length activeChannels - k" arbitrary: k rs rs' \<sigma>)
  case 0
  then show ?case by simp
next
  case (Suc d)
  then have k: "k < length activeChannels" by simp
  then have drop: "drop k activeChannels = activeChannels ! k # drop (Suc k) activeChannels"
    by (simp add: Cons_nth_drop_Suc)
  from Suc.prems(1) obtain r \<sigma>1 rs1 where
    r: "processChannel session (activeChannels ! k) \<sigma> = Some (r, \<sigma>1)"
    and rest: "sequentialPool session (drop (Suc k) activeChannels) \<sigma>1 = Some (rs1, \<sigma>')"
    and rs': "rs' = r # rs1"
    unfolding drop by (auto split: option.splits)
  have d: "d = length activeChannels - Suc k" using Suc.hyps(2) by simp
  from serve_one [OF k Suc.prems(2) r]
  have "(poolStep session activeChannels)\<^sup>*\<^sup>* (served activeChannels k rs \<sigma>)
          (served activeChannels (Suc k) (rs @ [r]) \<sigma>1)" .
  also from Suc.hyps(1) [OF d rest, of "rs @ [r]"] Suc.prems(2) k
  have "(poolStep session activeChannels)\<^sup>*\<^sup>* (served activeChannels (Suc k) (rs @ [r]) \<sigma>1)
          (served activeChannels (length activeChannels) ((rs @ [r]) @ rs1) \<sigma>')"
    by simp
  finally show ?case by (simp add: rs')
qed

lemma receive_all:
  "(poolStep session activeChannels)\<^sup>*\<^sup>*
     (p\<lparr>results := rs, received := got\<rparr>) (p\<lparr>results := [], received := got @ rs\<rparr>)"
proof (induction rs arbitrary: got)
  case Nil
  then show ?case by simp
next
  case (Cons r rs)
  have "poolStep session activeChannels (p\<lparr>results := r # rs, received := got\<rparr>)
          (p\<lparr>results := rs, received := got @ [r]\<rparr>)"
    using poolStep.receive [of "p\<lparr>results := r # rs, received := got\<rparr>" r rs session activeChannels]
    by simp
  with Cons.IH [of "got @ [r]"] show ?case
    by (simp add: converse_rtranclp_into_rtranclp)
qed

lemma sequentialPool_length:
  "sequentialPool session channels \<sigma> = Some (rs, \<sigma>') \<Longrightarrow> length rs = length channels"
  by (induction channels arbitrary: \<sigma> rs) (auto split: option.splits)

lemma sequentialPool_poolRun:
  assumes run: "sequentialPool session activeChannels \<sigma> = Some (rs, \<sigma>')"
  shows "poolRun session activeChannels \<sigma> rs \<sigma>'"
proof -
  let ?N = "length activeChannels"
  let ?final = "\<lparr>workers = replicate ?N Finished, semaphore = 0, results = [], wg = 0,
      resultsClosed = True, received = rs, rangeDone = True, world = \<sigma>'\<rparr>"
  have "startPool activeChannels \<sigma> = served activeChannels 0 [] \<sigma>"
    by (simp add: startPool_def served_def)
  moreover from serve_all [of session 0 activeChannels \<sigma> rs \<sigma>' "[]"] run
  have "(poolStep session activeChannels)\<^sup>*\<^sup>* (served activeChannels 0 [] \<sigma>)
          (served activeChannels ?N rs \<sigma>')"
    by simp
  moreover have "poolStep session activeChannels (served activeChannels ?N rs \<sigma>')
      ((served activeChannels ?N rs \<sigma>')\<lparr>resultsClosed := True\<rparr>)"
    by (rule poolStep.close) (simp_all add: served_def)
  moreover have "(poolStep session activeChannels)\<^sup>*\<^sup>*
      ((served activeChannels ?N rs \<sigma>')\<lparr>resultsClosed := True\<rparr>)
      ((served activeChannels ?N rs \<sigma>')\<lparr>resultsClosed := True, results := [], received := rs\<rparr>)"
    using receive_all [where session = session and activeChannels = activeChannels
        and p = "(served activeChannels ?N rs \<sigma>')\<lparr>resultsClosed := True\<rparr>"
        and rs = rs and got = "[]"]
    by (simp add: served_def)
  moreover have "poolStep session activeChannels
      ((served activeChannels ?N rs \<sigma>')\<lparr>resultsClosed := True, results := [], received := rs\<rparr>)
      ?final"
    using poolStep.rangeEnd [of
        "(served activeChannels ?N rs \<sigma>')\<lparr>resultsClosed := True, results := [], received := rs\<rparr>"
        session activeChannels]
    by (simp add: served_def)
  ultimately have "reachable session activeChannels \<sigma> ?final"
    unfolding reachable_def
    by (metis (no_types, lifting) rtranclp.rtrancl_into_rtrancl rtranclp_trans)
  then show ?thesis
    unfolding poolRun_def by (intro exI [of _ ?final]) simp
qed

lemma workerPool_sequentialPool: "workerPool session (sequentialPool session)"
  by (simp add: workerPool_def sequentialPool_poolRun)

lemma counting_le_permits:
  "length (filter isCounting ws) \<le> length (filter holdsPermit ws)"
proof (induction ws)
  case Nil
  then show ?case by simp
next
  case (Cons w ws)
  then show ?case by (cases w) simp_all
qed

lemma poolInv_done:
  assumes inv: "poolInv activeChannels p" and fin: "rangeDone p"
  shows "(\<forall>w\<in>set (workers p). w = Finished) \<and> semaphore p = 0
    \<and> length (received p) = length activeChannels
    \<and> mset (map channelName (received p)) = mset (map Name activeChannels)"
proof -
  from inv fin have closed: "results p = []" and wg: "wg p = 0"
    by (auto simp: poolInv_def)
  with inv have allfin: "\<forall>w\<in>set (workers p). w = Finished"
    by (auto simp: poolInv_def filter_empty_conv)
  then have "filter holdsPermit (workers p) = []"
    by (auto simp: filter_empty_conv)
  with inv have sem: "semaphore p = 0" by (simp add: poolInv_def)
  from allfin have "\<forall>w\<in>set (workers p). delivered w" by auto
  with inv have "deliveredNames activeChannels (workers p) = map Name activeChannels"
    by (intro deliveredNames_all) (simp_all add: poolInv_def)
  with inv closed have names: "mset (map channelName (received p)) = mset (map Name activeChannels)"
    by (simp add: poolInv_def)
  then have "length (received p) = length activeChannels"
    by (metis length_map size_mset)
  with allfin sem names show ?thesis by simp
qed

text \<open>
  C1: in every state the pool can reach, at most \<open>maxConcurrentChannels\<close> (5) workers are
  counting; the permits taken are exactly those of the workers between their send on
  \<open>semaphore\<close> and the deferred receive that follows their send on \<open>results\<close>, whatever
  the count returned; the results sent so far are one for each worker that has
  delivered. When the \<open>range\<close> loop has ended, every worker has finished, every permit is
  back, and the loop has received as many results as there are channels, one for each
  channel, in some order. Until then some step is possible whenever the upstream
  answers the pending requests, and the run in which the workers take turns is a run of
  the pool.
\<close>

theorem workerPool_bounded:
  assumes reach: "reachable session activeChannels \<sigma> p"
  shows "length (filter isCounting (workers p)) \<le> maxConcurrentChannels
    \<and> semaphore p = length (filter holdsPermit (workers p))
    \<and> semaphore p \<le> maxConcurrentChannels
    \<and> mset (map channelName (received p @ results p))
        = mset (deliveredNames activeChannels (workers p))
    \<and> (rangeDone p \<longrightarrow>
          (\<forall>w\<in>set (workers p). w = Finished) \<and> semaphore p = 0
          \<and> length (received p) = length activeChannels
          \<and> mset (map channelName (received p)) = mset (map Name activeChannels))
    \<and> (\<not> rangeDone p
        \<and> (\<forall>i lastMessageID totalCount.
              i < length (workers p) \<and> workers p ! i = Counting lastMessageID totalCount \<longrightarrow>
              ChannelMessages session (world p) (Channel.ID (activeChannels ! i))
                maxMessagesPerRequest lastMessageID \<noteq> None)
        \<longrightarrow> (\<exists>p'. poolStep session activeChannels p p'))
    \<and> (\<forall>rs \<sigma>'. sequentialPool session activeChannels \<sigma> = Some (rs, \<sigma>') \<longrightarrow>
          poolRun session activeChannels \<sigma> rs \<sigma>')"
proof -
  from reach have inv: "poolInv activeChannels p"
    by (rule reachable_poolInv)
  have "length (filter isCounting (workers p)) \<le> semaphore p"
    using inv counting_le_permits [of "workers p"] by (simp add: poolInv_def)
  moreover have "semaphore p = length (filter holdsPermit (workers p))"
    and "semaphore p \<le> maxConcurrentChannels"
    and "mset (map channelName (received p @ results p))
        = mset (deliveredNames activeChannels (workers p))"
    using inv by (simp_all add: poolInv_def)
  moreover have "rangeDone p \<longrightarrow>
          (\<forall>w\<in>set (workers p). w = Finished) \<and> semaphore p = 0
          \<and> length (received p) = length activeChannels
          \<and> mset (map channelName (received p)) = mset (map Name activeChannels)"
    using poolInv_done [OF inv] by blast
  moreover have "\<not> rangeDone p
        \<and> (\<forall>i lastMessageID totalCount.
              i < length (workers p) \<and> workers p ! i = Counting lastMessageID totalCount \<longrightarrow>
              ChannelMessages session (world p) (Channel.ID (activeChannels ! i))
                maxMessagesPerRequest lastMessageID \<noteq> None)
        \<longrightarrow> (\<exists>p'. poolStep session activeChannels p p')"
    using pool_progress [OF inv] by blast
  moreover have "\<forall>rs \<sigma>'. sequentialPool session activeChannels \<sigma> = Some (rs, \<sigma>') \<longrightarrow>
          poolRun session activeChannels \<sigma> rs \<sigma>'"
    by (simp add: sequentialPool_poolRun)
  ultimately show ?thesis by simp
qed

theorem workerPool_bounded_witness:
  "\<exists>p. reachable
         (simSession (Inl ''down'') (Inl ''down'')
            (\<lambda>channelID cursor.
               if channelID = ''1'' \<and> cursor = [] then Inr (replicate 100 \<lparr>Message.ID = ''m100''\<rparr>)
               else if channelID = ''1'' then Inr (replicate 30 \<lparr>Message.ID = ''m130''\<rparr>)
               else Inl ''HTTP 500''))
         [\<lparr>Channel.ID = ''1'', Name = ''general'', Type = 0\<rparr>,
          \<lparr>Channel.ID = ''2'', Name = ''random'', Type = 0\<rparr>] 0 p
     \<and> rangeDone p
     \<and> received p = [\<lparr>channelName = ''general'', count' = 130, err = None\<rparr>,
            \<lparr>channelName = ''random'', count' = 0, err = Some ''failed to get messages: HTTP 500''\<rparr>]
     \<and> semaphore p = 0 \<and> length (received p) = 2"
proof -
  let ?session = "simSession (Inl ''down'') (Inl ''down'')
            (\<lambda>channelID cursor.
               if channelID = ''1'' \<and> cursor = [] then Inr (replicate 100 \<lparr>Message.ID = ''m100''\<rparr>)
               else if channelID = ''1'' then Inr (replicate 30 \<lparr>Message.ID = ''m130''\<rparr>)
               else Inl ''HTTP 500'')"
  let ?channels = "[\<lparr>Channel.ID = ''1'', Name = ''general'', Type = 0\<rparr>,
          \<lparr>Channel.ID = ''2'', Name = ''random'', Type = 0\<rparr>]"
  let ?rs = "[\<lparr>channelName = ''general'', count' = 130, err = None\<rparr>,
            \<lparr>channelName = ''random'', count' = 0, err = Some ''failed to get messages: HTTP 500''\<rparr>]"
  have run: "sequentialPool ?session ?channels 0 = Some (?rs, 3000000000)"
    by (simp add: processChannel_def countChannelMessages_def countLoop.simps simSession_def
      maxMessagesPerRequest_def)
  have start: "reachable ?session ?channels 0 (startPool ?channels 0)"
    by (simp add: reachable_def)
  from workerPool_bounded [OF start] run
  have "poolRun ?session ?channels 0 ?rs 3000000000"
    by blast
  then obtain p where p: "reachable ?session ?channels 0 p" "rangeDone p" "received p = ?rs"
    unfolding poolRun_def by blast
  from workerPool_bounded [OF p(1)] p(2)
  have "semaphore p = 0 \<and> length (received p) = length ?channels"
    by blast
  with p show ?thesis by auto
qed

subsection \<open>The Channel Enumerator\<close>

lemma filterChannels_fold:
  "fold (\<lambda>channel (activeChannels, skipped).
             if Type channel \<noteq> ChannelTypeGuildText then (activeChannels, skipped)
             else if Name channel \<in> ExcludedChannels config
               then (activeChannels, skipped @ [SkippingExcludedChannel (Name channel)])
             else (activeChannels @ [channel], skipped))
       channels (active, skipped)
   = (active @ filter (\<lambda>channel. Type channel = ChannelTypeGuildText
                          \<and> Name channel \<notin> ExcludedChannels config) channels,
      skipped @ map (\<lambda>channel. SkippingExcludedChannel (Name channel))
                  (filter (\<lambda>channel. Type channel = ChannelTypeGuildText
                          \<and> Name channel \<in> ExcludedChannels config) channels))"
  by (induction channels arbitrary: active skipped) auto

lemma filterChannels_filter:
  "filterChannels config channels
   = (filter (\<lambda>channel. Type channel = ChannelTypeGuildText
                \<and> Name channel \<notin> ExcludedChannels config) channels,
      map (\<lambda>channel. SkippingExcludedChannel (Name channel))
        (filter (\<lambda>channel. Type channel = ChannelTypeGuildText
                   \<and> Name channel \<in> ExcludedChannels config) channels))"
  unfolding filterChannels_def filterChannels_fold by simp

subsection \<open>The Metric Publisher\<close>

lemma collectResults_Nil: "collectResults [] x = (0, 0, x)"
  by (simp add: collectResults_def)

lemma collectResults_snoc:
  "collectResults (rs @ [r]) x =
     (case collectResults rs x of
        (successCount, errorCount, x') \<Rightarrow>
          (case err r of
             Some e \<Rightarrow>
               (successCount, errorCount + 1,
                Printf (FailedToCountMessages (channelName r) e) x')
           | None \<Rightarrow>
               (successCount + 1, errorCount,
                Printf (ChannelMessageCount (channelName r) (count' r))
                  (x'\<lparr>messageCountGauge :=
                       (messageCountGauge x')(channelName r \<mapsto> float64 (count' r))\<rparr>))))"
  by (simp add: collectResults_def split: prod.splits)

lemma collectResults_memberCountGauge:
  "memberCountGauge (snd (snd (collectResults rs x))) = memberCountGauge x"
  by (induction rs rule: rev_induct)
    (auto simp: collectResults_Nil collectResults_snoc Printf_def split: prod.splits option.splits)

lemma collectResults_failed:
  "\<forall>r\<in>set rs. channelName r = name \<longrightarrow> err r \<noteq> None \<Longrightarrow>
   messageCountGauge (snd (snd (collectResults rs x))) name = messageCountGauge x name"
  by (induction rs rule: rev_induct)
    (auto simp: collectResults_Nil collectResults_snoc Printf_def split: prod.splits option.splits)

lemma collectResults_published:
  "\<exists>r\<in>set rs. channelName r = name \<and> err r = None \<Longrightarrow>
   \<exists>r\<in>set rs. channelName r = name \<and> err r = None
     \<and> messageCountGauge (snd (snd (collectResults rs x))) name = Some (float64 (count' r))"
proof (induction rs rule: rev_induct)
  case Nil
  then show ?case by simp
next
  case (snoc r rs)
  show ?case
  proof (cases "channelName r = name \<and> err r = None")
    case True
    then show ?thesis
      by (auto simp: collectResults_snoc Printf_def split: prod.splits)
  next
    case False
    with snoc.prems have "\<exists>r\<in>set rs. channelName r = name \<and> err r = None" by auto
    from snoc.IH [OF this] obtain r' where
      "r' \<in> set rs" "channelName r' = name" "err r' = None"
      "messageCountGauge (snd (snd (collectResults rs x))) name = Some (float64 (count' r'))"
      by blast
    with False show ?thesis
      by (auto simp: collectResults_snoc Printf_def split: prod.splits option.splits
          intro!: bexI [of _ r'])
  qed
qed

lemma collectResults_dom:
  "dom (messageCountGauge (snd (snd (collectResults rs x))))
   = dom (messageCountGauge x) \<union> {channelName r | r. r \<in> set rs \<and> err r = None}"
proof (induction rs rule: rev_induct)
  case Nil
  then show ?case by (simp add: collectResults_Nil)
next
  case (snoc r rs)
  obtain successCount errorCount x' where
    collect: "collectResults rs x = (successCount, errorCount, x')"
    by (cases "collectResults rs x") auto
  with snoc.IH have IH: "dom (messageCountGauge x')
      = dom (messageCountGauge x) \<union> {channelName r | r. r \<in> set rs \<and> err r = None}"
    by simp
  show ?case
  proof (cases "err r")
    case None
    then have "dom (messageCountGauge (snd (snd (collectResults (rs @ [r]) x))))
        = insert (channelName r) (dom (messageCountGauge x'))"
      by (simp add: collectResults_snoc collect Printf_def)
    with IH None show ?thesis by auto
  next
    case (Some e)
    then have "dom (messageCountGauge (snd (snd (collectResults (rs @ [r]) x))))
        = dom (messageCountGauge x')"
      by (simp add: collectResults_snoc collect Printf_def)
    with IH Some show ?thesis by auto
  qed
qed

lemma updateMessageCount_dispatch:
  assumes enum: "GuildChannels session \<sigma> (ServerID config) = Some (Inr channels, \<sigma>1)"
    and active: "filterChannels config channels = (activeChannels, skipped)"
      "activeChannels \<noteq> []"
    and pool: "pool activeChannels \<sigma>1 = Some (rs, \<sigma>2)"
  shows "\<exists>successCount errorCount x'.
     collectResults rs
       (Printf (ProcessingChannels (int (length activeChannels)) maxConcurrentChannels)
          (x\<lparr>logged := logged x @ skipped\<rparr>)) = (successCount, errorCount, x')
     \<and> updateMessageCount session clock pool config (\<sigma>, x)
       = Some (\<sigma>2, Printf (UpdateCompleted (Now clock \<sigma>2 - Now clock \<sigma>) successCount errorCount) x')"
  using assms
  by (cases "collectResults rs
       (Printf (ProcessingChannels (int (length activeChannels)) maxConcurrentChannels)
          (x\<lparr>logged := logged x @ skipped\<rparr>))")
     (simp add: updateMessageCount_def Let_def)

text \<open>
  C4, amended: in a cycle that reaches the worker pool, a channel name all of whose
  results are failures (the counting of the channel failed, and no channel of the same
  name was counted) keeps its gauge entry exactly as it was, present or absent, and the
  membership gauge is untouched; a name with a successful result shows the count of one
  of its successful results.
\<close>

theorem updateMessageCount_failed_channel:
  assumes enum: "GuildChannels session \<sigma> (ServerID config) = Some (Inr channels, \<sigma>1)"
    and active: "filterChannels config channels = (activeChannels, skipped)"
      "activeChannels \<noteq> []"
    and pool: "pool activeChannels \<sigma>1 = Some (rs, \<sigma>2)"
  shows "\<exists>x'. updateMessageCount session clock pool config (\<sigma>, x) = Some (\<sigma>2, x')
     \<and> memberCountGauge x' = memberCountGauge x
     \<and> (\<forall>name. (\<forall>r\<in>set rs. channelName r = name \<longrightarrow> err r \<noteq> None) \<longrightarrow>
           messageCountGauge x' name = messageCountGauge x name)
     \<and> (\<forall>name. (\<exists>r\<in>set rs. channelName r = name \<and> err r = None) \<longrightarrow>
           (\<exists>r\<in>set rs. channelName r = name \<and> err r = None
              \<and> messageCountGauge x' name = Some (float64 (count' r))))"
proof -
  let ?x2 = "Printf (ProcessingChannels (int (length activeChannels)) maxConcurrentChannels)
          (x\<lparr>logged := logged x @ skipped\<rparr>)"
  have "\<exists>successCount errorCount x'.
     collectResults rs ?x2 = (successCount, errorCount, x')
     \<and> updateMessageCount session clock pool config (\<sigma>, x)
       = Some (\<sigma>2, Printf (UpdateCompleted (Now clock \<sigma>2 - Now clock \<sigma>) successCount errorCount) x')"
    using enum active pool by (rule updateMessageCount_dispatch)
  then obtain successCount errorCount x' where
    collect: "collectResults rs ?x2 = (successCount, errorCount, x')"
    and run: "updateMessageCount session clock pool config (\<sigma>, x)
       = Some (\<sigma>2, Printf (UpdateCompleted (Now clock \<sigma>2 - Now clock \<sigma>) successCount errorCount) x')"
    by blast
  let ?x' = "Printf (UpdateCompleted (Now clock \<sigma>2 - Now clock \<sigma>) successCount errorCount) x'"
  have x': "x' = snd (snd (collectResults rs ?x2))"
    using collect by simp
  have "memberCountGauge ?x' = memberCountGauge x"
    using collectResults_memberCountGauge [of rs ?x2] by (simp add: x' Printf_def)
  moreover have "\<forall>name. (\<forall>r\<in>set rs. channelName r = name \<longrightarrow> err r \<noteq> None) \<longrightarrow>
           messageCountGauge ?x' name = messageCountGauge x name"
    using collectResults_failed [of rs _ ?x2] by (simp add: x' Printf_def)
  moreover have "\<forall>name. (\<exists>r\<in>set rs. channelName r = name \<and> err r = None) \<longrightarrow>
           (\<exists>r\<in>set rs. channelName r = name \<and> err r = None
              \<and> messageCountGauge ?x' name = Some (float64 (count' r)))"
    using collectResults_published [of rs _ ?x2] by (simp add: x' Printf_def)
  ultimately show ?thesis using run by blast
qed

lemmas example_defs =
  updateMemberCount_def updateMessageCount_def filterChannels_def collectResults_def Printf_def
  processChannel_def countChannelMessages_def countLoop.simps simSession_def simClock_def
  maxMessagesPerRequest_def maxMembersPerRequest_def maxConcurrentChannels_def
  ChannelTypeGuildText_def initialExporter_def defaultUpdateInterval_def

lemma exampleConfig_excluded: "ExcludedChannels exampleConfig = {''general-archive''}"
  unfolding exampleConfig_def by code_simp

text \<open>
  C4 as stated fails when two channels share a display name: the counting of channel 1
  fails, channel 2 of the same name is counted, and the entry of the name changes from
  7 to 5.
\<close>

theorem updateMessageCount_failed_channel_counterexample:
  "countChannelMessages twoGenerals ''1'' 1000000000
     = Some ((0, Some ''failed to get messages: HTTP 500''), 2000000000)
   \<and> messageCountGauge (initialExporter\<lparr>messageCountGauge := [''general'' \<mapsto> float64 7]\<rparr>)
       ''general'' = Some (float64 7)
   \<and> updateMessageCount twoGenerals simClock (sequentialPool twoGenerals)
       \<lparr>Token = ''t'', ServerID = ''g'', ExcludedChannels = {}\<rparr>
       (0, initialExporter\<lparr>messageCountGauge := [''general'' \<mapsto> float64 7]\<rparr>)
     = Some (3000000000,
         \<lparr>memberCountGauge = float64 0,
          messageCountGauge = [''general'' \<mapsto> float64 5],
          logged = [ProcessingChannels 2 5,
                    FailedToCountMessages ''general'' ''failed to get messages: HTTP 500'',
                    ChannelMessageCount ''general'' 5,
                    UpdateCompleted 3000000000 1 1]\<rparr>)"
  by (intro conjI) (simp_all add: twoGenerals_def example_defs)

theorem updateMessageCount_failed_channel_witness:
  "\<exists>x'. updateMessageCount exampleGuild simClock (sequentialPool exampleGuild) exampleConfig
         (0, initialExporter\<lparr>messageCountGauge := [''random'' \<mapsto> float64 9]\<rparr>)
       = Some (4000000000, x')
     \<and> messageCountGauge x' ''random'' = Some (float64 9)
     \<and> messageCountGauge x' ''general'' = Some (float64 130)"
proof -
  let ?rs = "[\<lparr>channelName = ''general'', count' = 130, err = None\<rparr>,
              \<lparr>channelName = ''random'', count' = 0,
                 err = Some ''failed to get messages: HTTP 500''\<rparr>]"
  let ?active = "[\<lparr>Channel.ID = ''1'', Name = ''general'', Type = 0\<rparr>,
                  \<lparr>Channel.ID = ''4'', Name = ''random'', Type = 0\<rparr>]"
  let ?x = "initialExporter\<lparr>messageCountGauge := [''random'' \<mapsto> float64 9]\<rparr>"
  have enum: "GuildChannels exampleGuild 0 (ServerID exampleConfig)
      = Some (Inr [\<lparr>Channel.ID = ''1'', Name = ''general'', Type = 0\<rparr>,
             \<lparr>Channel.ID = ''2'', Name = ''general-archive'', Type = 0\<rparr>,
             \<lparr>Channel.ID = ''3'', Name = ''Lounge'', Type = 2\<rparr>,
             \<lparr>Channel.ID = ''4'', Name = ''random'', Type = 0\<rparr>], 1000000000)"
    by (simp add: exampleGuild_def simSession_def)
  have active: "filterChannels exampleConfig
        [\<lparr>Channel.ID = ''1'', Name = ''general'', Type = 0\<rparr>,
             \<lparr>Channel.ID = ''2'', Name = ''general-archive'', Type = 0\<rparr>,
             \<lparr>Channel.ID = ''3'', Name = ''Lounge'', Type = 2\<rparr>,
             \<lparr>Channel.ID = ''4'', Name = ''random'', Type = 0\<rparr>]
      = (?active, [SkippingExcludedChannel ''general-archive''])"
    by (simp add: filterChannels_def exampleConfig_excluded ChannelTypeGuildText_def)
  have nonempty: "?active \<noteq> []" by simp
  have pool: "sequentialPool exampleGuild ?active 1000000000 = Some (?rs, 4000000000)"
    by (simp add: exampleGuild_def example_defs)
  from updateMessageCount_failed_channel
    [of exampleGuild 0 exampleConfig _ 1000000000 ?active _ "sequentialPool exampleGuild"
        ?rs 4000000000 simClock ?x, OF enum active nonempty pool]
  obtain x' where run: "updateMessageCount exampleGuild simClock (sequentialPool exampleGuild)
         exampleConfig (0, ?x) = Some (4000000000, x')"
    and failed: "\<And>name. (\<forall>r\<in>set ?rs. channelName r = name \<longrightarrow> err r \<noteq> None) \<Longrightarrow>
           messageCountGauge x' name = messageCountGauge ?x name"
    and published: "\<And>name. (\<exists>r\<in>set ?rs. channelName r = name \<and> err r = None) \<Longrightarrow>
           (\<exists>r\<in>set ?rs. channelName r = name \<and> err r = None
              \<and> messageCountGauge x' name = Some (float64 (count' r)))"
    by blast
  from failed [of "''random''"] have "messageCountGauge x' ''random'' = Some (float64 9)"
    by simp
  moreover from published [of "''general''"]
  have "messageCountGauge x' ''general'' = Some (float64 130)"
    by simp
  ultimately show ?thesis using run by blast
qed

lemma poolRun_names:
  assumes "poolRun session activeChannels \<sigma> rs \<sigma>'"
  shows "mset (map channelName rs) = mset (map Name activeChannels)"
proof -
  from assms obtain p where
    "reachable session activeChannels \<sigma> p" "rangeDone p" "received p = rs"
    unfolding poolRun_def by blast
  with poolInv_done [of activeChannels p] reachable_poolInv [of session activeChannels \<sigma> p]
  show ?thesis by auto
qed

lemma updateMemberCount_messageCountGauge:
  "updateMemberCount session serverID (\<sigma>, x) = Some (\<sigma>', x') \<Longrightarrow>
   messageCountGauge x' = messageCountGauge x"
  by (auto simp: updateMemberCount_def Printf_def Let_def split: option.splits sum.splits)

lemma updateMessageCount_labels:
  assumes wp: "workerPool session pool"
    and run: "updateMessageCount session clock pool config (\<sigma>, x) = Some (\<sigma>', x')"
    and label: "name \<in> dom (messageCountGauge x')"
  shows "name \<in> dom (messageCountGauge x) \<or> name \<notin> ExcludedChannels config"
proof (cases "GuildChannels session \<sigma> (ServerID config)")
  case None
  with run show ?thesis by (simp add: updateMessageCount_def)
next
  case (Some answer)
  obtain reply \<sigma>1 where answer: "answer = (reply, \<sigma>1)" by (cases answer)
  show ?thesis
  proof (cases reply)
    case (Inl e)
    with run Some answer label show ?thesis
      by (auto simp: updateMessageCount_def Printf_def)
  next
    case (Inr channels)
    let ?active = "filter (\<lambda>channel. Type channel = ChannelTypeGuildText
                \<and> Name channel \<notin> ExcludedChannels config) channels"
    obtain skipped where active: "filterChannels config channels = (?active, skipped)"
      by (simp add: filterChannels_filter)
    show ?thesis
    proof (cases "?active = []")
      case True
      with run Some answer Inr active label show ?thesis
        by (auto simp: updateMessageCount_def Printf_def)
    next
      case False
      with run Some answer Inr active obtain rs \<sigma>2 where
        pool: "pool ?active \<sigma>1 = Some (rs, \<sigma>2)"
        by (cases "pool ?active \<sigma>1") (auto simp: updateMessageCount_def Let_def)
      let ?x2 = "Printf (ProcessingChannels (int (length ?active)) maxConcurrentChannels)
          (x\<lparr>logged := logged x @ skipped\<rparr>)"
      from run Some answer Inr active False pool
      have "messageCountGauge x' = messageCountGauge (snd (snd (collectResults rs ?x2)))"
        by (auto simp: updateMessageCount_def Let_def Printf_def split: prod.splits)
      with label collectResults_dom [of rs ?x2]
      have "name \<in> dom (messageCountGauge x) \<or> name \<in> channelName ` set rs"
        by (auto simp: Printf_def)
      moreover from wp pool have "poolRun session ?active \<sigma>1 rs \<sigma>2"
        by (simp add: workerPool_def)
      then have "mset (map channelName rs) = mset (map Name ?active)"
        by (rule poolRun_names)
      then have "channelName ` set rs = Name ` set ?active"
        by (metis mset_eq_setD set_map)
      ultimately show ?thesis by auto
    qed
  qed
qed

lemma startMetricsCollector_labels:
  assumes wp: "workerPool session pool"
  shows "startMetricsCollector n session clock pool config (\<sigma>, x) = Some (\<sigma>', x') \<Longrightarrow>
    dom (messageCountGauge x) \<inter> ExcludedChannels config = {} \<Longrightarrow>
    dom (messageCountGauge x') \<inter> ExcludedChannels config = {}"
proof (induction n arbitrary: \<sigma> x)
  case 0
  then show ?case by simp
next
  case (Suc n)
  from Suc.prems(1) obtain \<sigma>1 x1 \<sigma>2 x2 where
    member: "updateMemberCount session (ServerID config) (\<sigma>, x) = Some (\<sigma>1, x1)"
    and message: "updateMessageCount session clock pool config (\<sigma>1, x1) = Some (\<sigma>2, x2)"
    and rest: "startMetricsCollector n session clock pool config
                 (Sleep clock \<sigma>2 defaultUpdateInterval, x2) = Some (\<sigma>', x')"
    by (auto split: option.splits)
  from member have same: "messageCountGauge x1 = messageCountGauge x"
    by (rule updateMemberCount_messageCountGauge)
  have "dom (messageCountGauge x2) \<inter> ExcludedChannels config = {}"
  proof (rule ccontr)
    assume "dom (messageCountGauge x2) \<inter> ExcludedChannels config \<noteq> {}"
    then obtain name where name: "name \<in> dom (messageCountGauge x2)"
      "name \<in> ExcludedChannels config"
      by blast
    from updateMessageCount_labels [OF wp message name(1)] name(2)
    have "name \<in> dom (messageCountGauge x1)" by simp
    with same Suc.prems(2) name(2) show False by auto
  qed
  with Suc.IH [OF rest] show ?case .
qed

text \<open>
  C5: the active channels are the channels of the input, in its order, that are text
  channels and whose name is not in the Exclusion Set: no other channel is kept and none
  of these is dropped, wherever it stands in the list. Hence, from the start of the
  process and whatever the schedule of the worker pool, no name of the Exclusion Set is
  ever a label of \<open>messageCountGauge\<close>.
\<close>

theorem filterChannels_excludes:
  "fst (filterChannels config channels)
     = filter (\<lambda>channel. Type channel = ChannelTypeGuildText
                 \<and> Name channel \<notin> ExcludedChannels config) channels
   \<and> (\<forall>channel. channel \<in> set (fst (filterChannels config channels)) \<longleftrightarrow>
         channel \<in> set channels \<and> Type channel = ChannelTypeGuildText
         \<and> Name channel \<notin> ExcludedChannels config)
   \<and> (workerPool session pool
        \<and> startMetricsCollector n session clock pool config (\<sigma>, initialExporter) = Some (\<sigma>', x')
      \<longrightarrow> dom (messageCountGauge x') \<inter> ExcludedChannels config = {})"
proof (intro conjI allI impI)
  show "fst (filterChannels config channels)
     = filter (\<lambda>channel. Type channel = ChannelTypeGuildText
                 \<and> Name channel \<notin> ExcludedChannels config) channels"
    by (simp add: filterChannels_filter)
next
  fix channel
  show "channel \<in> set (fst (filterChannels config channels)) \<longleftrightarrow>
         channel \<in> set channels \<and> Type channel = ChannelTypeGuildText
         \<and> Name channel \<notin> ExcludedChannels config"
    by (simp add: filterChannels_filter)
next
  assume "workerPool session pool
        \<and> startMetricsCollector n session clock pool config (\<sigma>, initialExporter) = Some (\<sigma>', x')"
  then have wp: "workerPool session pool"
    and run: "startMetricsCollector n session clock pool config (\<sigma>, initialExporter) = Some (\<sigma>', x')"
    by simp_all
  from startMetricsCollector_labels [OF wp run]
  show "dom (messageCountGauge x') \<inter> ExcludedChannels config = {}"
    by (simp add: initialExporter_def)
qed

theorem filterChannels_excludes_witness:
  "fst (filterChannels exampleConfig
         [\<lparr>Channel.ID = ''1'', Name = ''general'', Type = 0\<rparr>,
          \<lparr>Channel.ID = ''2'', Name = ''general-archive'', Type = 0\<rparr>,
          \<lparr>Channel.ID = ''3'', Name = ''Lounge'', Type = 2\<rparr>,
          \<lparr>Channel.ID = ''4'', Name = ''random'', Type = 0\<rparr>])
     = [\<lparr>Channel.ID = ''1'', Name = ''general'', Type = 0\<rparr>,
        \<lparr>Channel.ID = ''4'', Name = ''random'', Type = 0\<rparr>]
   \<and> workerPool exampleGuild (sequentialPool exampleGuild)
   \<and> startMetricsCollector 2 exampleGuild simClock (sequentialPool exampleGuild) exampleConfig
        (0, initialExporter)
      = Some (1810000000000,
          \<lparr>memberCountGauge = float64 3,
           messageCountGauge = [''general'' \<mapsto> float64 130],
           logged = [MemberCount 3, SkippingExcludedChannel ''general-archive'',
                     ProcessingChannels 2 5, ChannelMessageCount ''general'' 130,
                     FailedToCountMessages ''random'' ''failed to get messages: HTTP 500'',
                     UpdateCompleted 4000000000 1 1,
                     MemberCount 3, SkippingExcludedChannel ''general-archive'',
                     ProcessingChannels 2 5, ChannelMessageCount ''general'' 130,
                     FailedToCountMessages ''random'' ''failed to get messages: HTTP 500'',
                     UpdateCompleted 4000000000 1 1]\<rparr>)
   \<and> dom [''general'' \<mapsto> float64 130] \<inter> ExcludedChannels exampleConfig = {}"
proof -
  let ?channels = "[\<lparr>Channel.ID = ''1'', Name = ''general'', Type = 0\<rparr>,
          \<lparr>Channel.ID = ''2'', Name = ''general-archive'', Type = 0\<rparr>,
          \<lparr>Channel.ID = ''3'', Name = ''Lounge'', Type = 2\<rparr>,
          \<lparr>Channel.ID = ''4'', Name = ''random'', Type = 0\<rparr>]"
  let ?x = "\<lparr>memberCountGauge = float64 3,
           messageCountGauge = [''general'' \<mapsto> float64 130],
           logged = [MemberCount 3, SkippingExcludedChannel ''general-archive'',
                     ProcessingChannels 2 5, ChannelMessageCount ''general'' 130,
                     FailedToCountMessages ''random'' ''failed to get messages: HTTP 500'',
                     UpdateCompleted 4000000000 1 1,
                     MemberCount 3, SkippingExcludedChannel ''general-archive'',
                     ProcessingChannels 2 5, ChannelMessageCount ''general'' 130,
                     FailedToCountMessages ''random'' ''failed to get messages: HTTP 500'',
                     UpdateCompleted 4000000000 1 1]\<rparr>"
  have wp: "workerPool exampleGuild (sequentialPool exampleGuild)"
    by (rule workerPool_sequentialPool)
  have run: "startMetricsCollector 2 exampleGuild simClock (sequentialPool exampleGuild) exampleConfig
        (0, initialExporter) = Some (1810000000000, ?x)"
    by (simp add: numeral_2_eq_2 exampleGuild_def exampleConfig_excluded example_defs)
  note inst = filterChannels_excludes
    [of exampleConfig ?channels exampleGuild "sequentialPool exampleGuild" 2 simClock 0
        1810000000000 ?x]
  from inst have "fst (filterChannels exampleConfig ?channels)
     = [\<lparr>Channel.ID = ''1'', Name = ''general'', Type = 0\<rparr>,
        \<lparr>Channel.ID = ''4'', Name = ''random'', Type = 0\<rparr>]"
    by (simp add: exampleConfig_excluded ChannelTypeGuildText_def)
  moreover from inst wp run
  have "dom [''general'' \<mapsto> float64 130] \<inter> ExcludedChannels exampleConfig = {}"
    by simp
  ultimately show ?thesis using wp run by simp
qed

subsection \<open>The scheduler and the errors of a cycle\<close>

lemma startMetricsCollector_Suc:
  "startMetricsCollector (Suc n) session clock pool config s0 =
     (case startMetricsCollector n session clock pool config s0 of
        None \<Rightarrow> None
      | Some s \<Rightarrow>
          (case updateMemberCount session (ServerID config) s of
             None \<Rightarrow> None
           | Some s1 \<Rightarrow>
               (case updateMessageCount session clock pool config s1 of
                  None \<Rightarrow> None
                | Some (\<sigma>2, x2) \<Rightarrow> Some (Sleep clock \<sigma>2 defaultUpdateInterval, x2))))"
proof (induction n arbitrary: s0)
  case 0
  then show ?case by (simp split: option.splits)
next
  case (Suc n)
  show ?case
  proof (cases "updateMemberCount session (ServerID config) s0")
    case None
    then show ?thesis by simp
  next
    case (Some s1)
    show ?thesis
    proof (cases "updateMessageCount session clock pool config s1")
      case None
      with Some show ?thesis by simp
    next
      case message: (Some s2)
      obtain \<sigma>2 x2 where s2: "s2 = (\<sigma>2, x2)" by (cases s2)
      have first: "startMetricsCollector (Suc k) session clock pool config s0
          = startMetricsCollector k session clock pool config
              (Sleep clock \<sigma>2 defaultUpdateInterval, x2)" for k
        using Some message s2 by simp
      show ?thesis
        unfolding first [of "Suc n"] first [of n]
        by (rule Suc.IH)
    qed
  qed
qed

lemma updateMemberCount_failed:
  "GuildMembers session \<sigma> serverID [] maxMembersPerRequest = Some (Inl e, \<sigma>1) \<Longrightarrow>
   updateMemberCount session serverID (\<sigma>, x)
     = Some (\<sigma>1, x\<lparr>logged := logged x @ [FailedToGetGuildMembers e]\<rparr>)"
  by (simp add: updateMemberCount_def Printf_def)

lemma updateMemberCount_counted:
  "GuildMembers session \<sigma> serverID [] maxMembersPerRequest = Some (Inr members, \<sigma>1) \<Longrightarrow>
   updateMemberCount session serverID (\<sigma>, x)
     = Some (\<sigma>1, x\<lparr>memberCountGauge := float64 (int (length members)),
                     logged := logged x @ [MemberCount (int (length members))]\<rparr>)"
  by (simp add: updateMemberCount_def Printf_def Let_def)

lemma updateMessageCount_failed:
  "GuildChannels session \<sigma> (ServerID config) = Some (Inl e, \<sigma>1) \<Longrightarrow>
   updateMessageCount session clock pool config (\<sigma>, x)
     = Some (\<sigma>1, x\<lparr>logged := logged x @ [FailedToGetGuildChannels e]\<rparr>)"
  by (simp add: updateMessageCount_def Printf_def)

lemma collectResults_failed_result:
  "err r = Some e \<Longrightarrow>
   collectResults (rs @ [r]) x =
     (case collectResults rs x of
        (successCount, errorCount, x') \<Rightarrow>
          (successCount, errorCount + 1,
           x'\<lparr>logged := logged x' @ [FailedToCountMessages (channelName r) e]\<rparr>))"
  by (simp add: collectResults_snoc Printf_def)

lemma loadConfig_fails:
  "(\<exists>e. loadConfig v = Inl e) \<longleftrightarrow>
     ReadInConfig v \<noteq> None \<or> GetString v ''token'' = [] \<or> GetString v ''serverID'' = []"
  by (auto simp: loadConfig_def Let_def split: option.splits)

lemma main_exits:
  "(\<exists>code lg. main sys = Exit code lg) \<longleftrightarrow>
     (\<exists>e. loadConfig (viper sys) = Inl e)
     \<or> (\<exists>config. loadConfig (viper sys) = Inr config
          \<and> (NewSession sys (''Bot '' @ Token config) \<noteq> None
              \<or> ListenAndServe sys defaultMetricsPort \<noteq> None))"
  by (auto simp: main_def Let_def split: sum.splits option.splits)

lemma main_exit_status: "main sys = Exit code lg \<Longrightarrow> code = 1"
  by (auto simp: main_def Let_def split: sum.splits option.splits)

text \<open>
  C7 as stated fails where it says that only configuration errors are fatal: with a
  configuration that loads, \<open>main\<close> still exits with status 1 when the HTTP server
  returns an error.
\<close>

theorem cycle_errors_contained_counterexample:
  "loadConfig (viper portInUse) = Inr \<lparr>Token = ''t'', ServerID = ''g'', ExcludedChannels = {}\<rparr>
   \<and> main portInUse
       = Exit 1 [ConfigurationLoaded ''g'', ExcludedChannelsCount 0, SessionCreated,
                 CollectorStarted 900000000000, StartingHTTPServer '':2112'',
                 FailedToStartHTTPServer ''listen tcp :2112: bind: address already in use'']"
  by (intro conjI)
    (simp_all add: main_def loadConfig_def portInUse_def parseExcludedChannels_def
      defaultUpdateInterval_def defaultMetricsPort_def)

text \<open>
  C7, amended: a failed membership fetch is logged and the cycle goes on to the message
  count; a failed channel enumeration is logged and ends the message count of the cycle,
  leaving the membership gauge of the same cycle and every message gauge as they are; a
  failed channel count adds one log entry and one to the error count. Each of these
  functions returns, and the collector goes from every iteration that returns to the
  next one after the same sleep, whatever was logged. The process exits (with status 1)
  only from \<open>main\<close>: when the configuration cannot be loaded (file unreadable, token or
  serverID empty), when the session cannot be created, or when the HTTP server returns
  an error.
\<close>

theorem cycle_errors_contained:
  "(GuildMembers session \<sigma> (ServerID config) [] maxMembersPerRequest = Some (Inl e, \<sigma>') \<longrightarrow>
      updateMemberCount session (ServerID config) (\<sigma>, x)
        = Some (\<sigma>', x\<lparr>logged := logged x @ [FailedToGetGuildMembers e]\<rparr>)
      \<and> startMetricsCollector 1 session clock pool config (\<sigma>, x)
        = (case updateMessageCount session clock pool config
                  (\<sigma>', x\<lparr>logged := logged x @ [FailedToGetGuildMembers e]\<rparr>) of
             None \<Rightarrow> None
           | Some (\<sigma>'', x'') \<Rightarrow> Some (Sleep clock \<sigma>'' defaultUpdateInterval, x'')))
   \<and> (GuildChannels session \<sigma> (ServerID config) = Some (Inl e, \<sigma>') \<longrightarrow>
      updateMessageCount session clock pool config (\<sigma>, x)
        = Some (\<sigma>', x\<lparr>logged := logged x @ [FailedToGetGuildChannels e]\<rparr>))
   \<and> (GuildMembers session \<sigma> (ServerID config) [] maxMembersPerRequest
        = Some (Inr members, \<sigma>')
      \<and> GuildChannels session \<sigma>' (ServerID config) = Some (Inl e, \<sigma>'') \<longrightarrow>
      startMetricsCollector 1 session clock pool config (\<sigma>, x)
        = Some (Sleep clock \<sigma>'' defaultUpdateInterval,
            x\<lparr>memberCountGauge := float64 (int (length members)),
              logged := logged x @ [MemberCount (int (length members)),
                                    FailedToGetGuildChannels e]\<rparr>))
   \<and> (err r = Some e \<longrightarrow>
      collectResults (rs @ [r]) x =
        (case collectResults rs x of
           (successCount, errorCount, x') \<Rightarrow>
             (successCount, errorCount + 1,
              x'\<lparr>logged := logged x' @ [FailedToCountMessages (channelName r) e]\<rparr>)))
   \<and> startMetricsCollector (Suc n) session clock pool config start =
       (case startMetricsCollector n session clock pool config start of
          None \<Rightarrow> None
        | Some s \<Rightarrow>
            (case updateMemberCount session (ServerID config) s of
               None \<Rightarrow> None
             | Some s' \<Rightarrow>
                 (case updateMessageCount session clock pool config s' of
                    None \<Rightarrow> None
                  | Some (\<sigma>'', x'') \<Rightarrow> Some (Sleep clock \<sigma>'' defaultUpdateInterval, x''))))
   \<and> ((\<exists>code lg. main sys = Exit code lg) \<longleftrightarrow>
        (\<exists>e. loadConfig (viper sys) = Inl e)
        \<or> (\<exists>config. loadConfig (viper sys) = Inr config
             \<and> (NewSession sys (''Bot '' @ Token config) \<noteq> None
                 \<or> ListenAndServe sys defaultMetricsPort \<noteq> None)))
   \<and> (\<forall>code lg. main sys = Exit code lg \<longrightarrow> code = 1)
   \<and> ((\<exists>e. loadConfig (viper sys) = Inl e) \<longleftrightarrow>
        ReadInConfig (viper sys) \<noteq> None \<or> GetString (viper sys) ''token'' = []
        \<or> GetString (viper sys) ''serverID'' = [])"
proof -
  have member: "GuildMembers session \<sigma> (ServerID config) [] maxMembersPerRequest
        = Some (Inl e, \<sigma>') \<longrightarrow>
      updateMemberCount session (ServerID config) (\<sigma>, x)
        = Some (\<sigma>', x\<lparr>logged := logged x @ [FailedToGetGuildMembers e]\<rparr>)
      \<and> startMetricsCollector 1 session clock pool config (\<sigma>, x)
        = (case updateMessageCount session clock pool config
                  (\<sigma>', x\<lparr>logged := logged x @ [FailedToGetGuildMembers e]\<rparr>) of
             None \<Rightarrow> None
           | Some (\<sigma>'', x'') \<Rightarrow> Some (Sleep clock \<sigma>'' defaultUpdateInterval, x''))"
    by (simp add: updateMemberCount_failed split: option.splits)
  have enum: "GuildChannels session \<sigma> (ServerID config) = Some (Inl e, \<sigma>') \<longrightarrow>
      updateMessageCount session clock pool config (\<sigma>, x)
        = Some (\<sigma>', x\<lparr>logged := logged x @ [FailedToGetGuildChannels e]\<rparr>)"
    by (simp add: updateMessageCount_failed)
  have both: "GuildMembers session \<sigma> (ServerID config) [] maxMembersPerRequest
        = Some (Inr members, \<sigma>')
      \<and> GuildChannels session \<sigma>' (ServerID config) = Some (Inl e, \<sigma>'') \<longrightarrow>
      startMetricsCollector 1 session clock pool config (\<sigma>, x)
        = Some (Sleep clock \<sigma>'' defaultUpdateInterval,
            x\<lparr>memberCountGauge := float64 (int (length members)),
              logged := logged x @ [MemberCount (int (length members)),
                                    FailedToGetGuildChannels e]\<rparr>)"
    by (simp add: updateMemberCount_counted updateMessageCount_failed)
  have count: "err r = Some e \<longrightarrow>
      collectResults (rs @ [r]) x =
        (case collectResults rs x of
           (successCount, errorCount, x') \<Rightarrow>
             (successCount, errorCount + 1,
              x'\<lparr>logged := logged x' @ [FailedToCountMessages (channelName r) e]\<rparr>))"
    by (simp add: collectResults_failed_result)
  have status: "\<forall>code lg. main sys = Exit code lg \<longrightarrow> code = 1"
    by (auto dest: main_exit_status)
  from member enum both count status
    startMetricsCollector_Suc [of n session clock pool config start]
    main_exits [of sys] loadConfig_fails [of "viper sys"]
  show ?thesis by (intro conjI)
qed

theorem cycle_errors_contained_witness:
  "updateMemberCount outage ''g'' (0, initialExporter)
     = Some (1000000000, initialExporter\<lparr>logged := [FailedToGetGuildMembers ''HTTP 503'']\<rparr>)
   \<and> updateMessageCount outage simClock (sequentialPool outage) exampleConfig
       (1000000000, initialExporter\<lparr>logged := [FailedToGetGuildMembers ''HTTP 503'']\<rparr>)
     = Some (2000000000,
         initialExporter\<lparr>logged := [FailedToGetGuildMembers ''HTTP 503'',
                                      FailedToGetGuildChannels ''HTTP 503'']\<rparr>)
   \<and> startMetricsCollector 1 enumerationOutage simClock (sequentialPool enumerationOutage)
       exampleConfig (0, initialExporter)
     = Some (902000000000,
         \<lparr>memberCountGauge = float64 3, messageCountGauge = Map.empty,
          logged = [MemberCount 3, FailedToGetGuildChannels ''HTTP 503'']\<rparr>)
   \<and> collectResults
       ([] @ [\<lparr>channelName = ''random'', count' = 0,
                err = Some ''failed to get messages: HTTP 500''\<rparr>]) initialExporter
     = (0, 1, initialExporter\<lparr>logged :=
         [FailedToCountMessages ''random'' ''failed to get messages: HTTP 500'']\<rparr>)
   \<and> startMetricsCollector 2 outage simClock (sequentialPool outage) exampleConfig
       (0, initialExporter)
     = Some (1804000000000,
         initialExporter\<lparr>logged := [FailedToGetGuildMembers ''HTTP 503'',
                                      FailedToGetGuildChannels ''HTTP 503'',
                                      FailedToGetGuildMembers ''HTTP 503'',
                                      FailedToGetGuildChannels ''HTTP 503'']\<rparr>)
   \<and> (\<exists>code lg. main portInUse = Exit code lg)"
proof -
  let ?x1 = "initialExporter\<lparr>logged := [FailedToGetGuildMembers ''HTTP 503'']\<rparr>"
  let ?r = "\<lparr>channelName = ''random'', count' = 0,
              err = Some ''failed to get messages: HTTP 500''\<rparr>"
  have serverID: "ServerID exampleConfig = ''g''"
    by (simp add: exampleConfig_def)
  have members: "GuildMembers outage 0 (ServerID exampleConfig) [] maxMembersPerRequest
      = Some (Inl ''HTTP 503'', 1000000000)"
    by (simp add: outage_def simSession_def)
  have channels: "GuildChannels outage 1000000000 (ServerID exampleConfig)
      = Some (Inl ''HTTP 503'', 2000000000)"
    by (simp add: outage_def simSession_def)
  have counted: "GuildMembers enumerationOutage 0 (ServerID exampleConfig) []
        maxMembersPerRequest = Some (Inr (replicate 3 \<lparr>Nick = ''n''\<rparr>), 1000000000)
      \<and> GuildChannels enumerationOutage 1000000000 (ServerID exampleConfig)
        = Some (Inl ''HTTP 503'', 2000000000)"
    by (simp add: enumerationOutage_def simSession_def)
  have failed: "err ?r = Some ''failed to get messages: HTTP 500''"
    by simp
  have first: "startMetricsCollector 1 outage simClock (sequentialPool outage) exampleConfig
       (0, initialExporter)
     = Some (902000000000,
         initialExporter\<lparr>logged := [FailedToGetGuildMembers ''HTTP 503'',
                                      FailedToGetGuildChannels ''HTTP 503'']\<rparr>)"
    by (simp add: outage_def exampleConfig_def example_defs)
  have port: "\<exists>config. loadConfig (viper portInUse) = Inr config
      \<and> (NewSession portInUse (''Bot '' @ Token config) \<noteq> None
          \<or> ListenAndServe portInUse defaultMetricsPort \<noteq> None)"
    by (simp add: loadConfig_def portInUse_def)
  note c1 = cycle_errors_contained
    [where session = outage and \<sigma> = 0 and config = exampleConfig and e = "''HTTP 503''"
       and \<sigma>' = 1000000000 and x = initialExporter, THEN conjunct1]
  note c2 = cycle_errors_contained
    [where session = outage and \<sigma> = 1000000000 and config = exampleConfig
       and e = "''HTTP 503''" and \<sigma>' = 2000000000 and x = ?x1 and clock = simClock
       and pool = "sequentialPool outage", THEN conjunct2, THEN conjunct1]
  note c3 = cycle_errors_contained
    [where session = enumerationOutage and \<sigma> = 0 and config = exampleConfig
       and e = "''HTTP 503''" and \<sigma>' = 1000000000 and \<sigma>'' = 2000000000
       and members = "replicate 3 \<lparr>Nick = ''n''\<rparr>" and x = initialExporter
       and clock = simClock and pool = "sequentialPool enumerationOutage",
       THEN conjunct2, THEN conjunct2, THEN conjunct1]
  note c4 = cycle_errors_contained
    [where r = ?r and e = "''failed to get messages: HTTP 500''" and rs = "[]"
       and x = initialExporter,
       THEN conjunct2, THEN conjunct2, THEN conjunct2, THEN conjunct1]
  note c5 = cycle_errors_contained
    [where n = 1 and session = outage and clock = simClock and pool = "sequentialPool outage"
       and config = exampleConfig and start = "(0, initialExporter)",
       THEN conjunct2, THEN conjunct2, THEN conjunct2, THEN conjunct2, THEN conjunct1]
  note c6 = cycle_errors_contained
    [where sys = portInUse,
       THEN conjunct2, THEN conjunct2, THEN conjunct2, THEN conjunct2, THEN conjunct2,
       THEN conjunct1]
  from c1 members have w1: "updateMemberCount outage ''g'' (0, initialExporter)
     = Some (1000000000, ?x1)"
    by (simp add: serverID initialExporter_def)
  from c2 channels have w2:
    "updateMessageCount outage simClock (sequentialPool outage) exampleConfig (1000000000, ?x1)
     = Some (2000000000,
         initialExporter\<lparr>logged := [FailedToGetGuildMembers ''HTTP 503'',
                                      FailedToGetGuildChannels ''HTTP 503'']\<rparr>)"
    by (simp add: initialExporter_def)
  from c3 counted have w3:
    "startMetricsCollector 1 enumerationOutage simClock (sequentialPool enumerationOutage)
       exampleConfig (0, initialExporter)
     = Some (902000000000,
         \<lparr>memberCountGauge = float64 3, messageCountGauge = Map.empty,
          logged = [MemberCount 3, FailedToGetGuildChannels ''HTTP 503'']\<rparr>)"
    by (simp add: initialExporter_def simClock_def defaultUpdateInterval_def)
  from c4 failed have w4: "collectResults ([] @ [?r]) initialExporter
     = (0, 1, initialExporter\<lparr>logged :=
         [FailedToCountMessages ''random'' ''failed to get messages: HTTP 500'']\<rparr>)"
    by (simp add: collectResults_Nil initialExporter_def)
  from c5 first have w5:
    "startMetricsCollector 2 outage simClock (sequentialPool outage) exampleConfig
       (0, initialExporter)
     = Some (1804000000000,
         initialExporter\<lparr>logged := [FailedToGetGuildMembers ''HTTP 503'',
                                      FailedToGetGuildChannels ''HTTP 503'',
                                      FailedToGetGuildMembers ''HTTP 503'',
                                      FailedToGetGuildChannels ''HTTP 503'']\<rparr>)"
    by (simp add: numeral_2_eq_2 outage_def exampleConfig_def example_defs)
  from c6 port have w6: "\<exists>code lg. main portInUse = Exit code lg"
    by blast
  from w1 w2 w3 w4 w5 w6 show ?thesis by (intro conjI)
qed

text \<open>
  C8: the collector starts its first cycle at once, in the state in which it was started,
  and every iteration is the membership count, then the message count on the state the
  membership count left, then a sleep of \<open>defaultUpdateInterval\<close>, which is 15 minutes,
  on the state the message count left; iteration \<open>n + 1\<close> starts in the state this sleep
  returns in. So the wait is counted from the end of the cycle, the next cycle starts
  at least 15 minutes after the previous one has ended (as long as \<open>Sleep\<close> lasts at
  least as long as asked), the wait is the same after every cycle, and the loop ends
  only by an iteration that does not return.
\<close>

theorem startMetricsCollector_schedule:
  "startMetricsCollector 0 session clock pool config start = Some start
   \<and> startMetricsCollector (Suc n) session clock pool config start =
       (case startMetricsCollector n session clock pool config start of
          None \<Rightarrow> None
        | Some s \<Rightarrow>
            (case updateMemberCount session (ServerID config) s of
               None \<Rightarrow> None
             | Some s' \<Rightarrow>
                 (case updateMessageCount session clock pool config s' of
                    None \<Rightarrow> None
                  | Some (\<sigma>'', x'') \<Rightarrow> Some (Sleep clock \<sigma>'' defaultUpdateInterval, x''))))
   \<and> defaultUpdateInterval = 15 * 60 * 1000000000
   \<and> ((\<forall>\<sigma> d. Now clock \<sigma> + d \<le> Now clock (Sleep clock \<sigma> d))
        \<and> startMetricsCollector n session clock pool config start = Some s
        \<and> updateMemberCount session (ServerID config) s = Some s'
        \<and> updateMessageCount session clock pool config s' = Some (\<sigma>'', x'')
      \<longrightarrow> (\<exists>\<sigma>'''. startMetricsCollector (Suc n) session clock pool config start = Some (\<sigma>''', x'')
             \<and> \<sigma>''' = Sleep clock \<sigma>'' defaultUpdateInterval
             \<and> Now clock \<sigma>'' + 15 * 60 * 1000000000 \<le> Now clock \<sigma>'''))"
proof (intro conjI impI)
  show "startMetricsCollector 0 session clock pool config start = Some start"
    by simp
next
  show "startMetricsCollector (Suc n) session clock pool config start =
       (case startMetricsCollector n session clock pool config start of
          None \<Rightarrow> None
        | Some s \<Rightarrow>
            (case updateMemberCount session (ServerID config) s of
               None \<Rightarrow> None
             | Some s' \<Rightarrow>
                 (case updateMessageCount session clock pool config s' of
                    None \<Rightarrow> None
                  | Some (\<sigma>'', x'') \<Rightarrow> Some (Sleep clock \<sigma>'' defaultUpdateInterval, x''))))"
    by (rule startMetricsCollector_Suc)
next
  show "defaultUpdateInterval = 15 * 60 * 1000000000"
    by (simp add: defaultUpdateInterval_def)
next
  assume "(\<forall>\<sigma> d. Now clock \<sigma> + d \<le> Now clock (Sleep clock \<sigma> d))
        \<and> startMetricsCollector n session clock pool config start = Some s
        \<and> updateMemberCount session (ServerID config) s = Some s'
        \<and> updateMessageCount session clock pool config s' = Some (\<sigma>'', x'')"
  then have sleep: "Now clock \<sigma>'' + defaultUpdateInterval
        \<le> Now clock (Sleep clock \<sigma>'' defaultUpdateInterval)"
    and run: "startMetricsCollector n session clock pool config start = Some s"
      "updateMemberCount session (ServerID config) s = Some s'"
      "updateMessageCount session clock pool config s' = Some (\<sigma>'', x'')"
    by simp_all
  from run have "startMetricsCollector (Suc n) session clock pool config start
      = Some (Sleep clock \<sigma>'' defaultUpdateInterval, x'')"
    by (subst startMetricsCollector_Suc) simp
  with sleep show "\<exists>\<sigma>'''. startMetricsCollector (Suc n) session clock pool config start = Some (\<sigma>''', x'')
             \<and> \<sigma>''' = Sleep clock \<sigma>'' defaultUpdateInterval
             \<and> Now clock \<sigma>'' + 15 * 60 * 1000000000 \<le> Now clock \<sigma>'''"
    by (simp add: defaultUpdateInterval_def)
qed

theorem startMetricsCollector_schedule_witness:
  "(\<forall>\<sigma> d. Now simClock \<sigma> + d \<le> Now simClock (Sleep simClock \<sigma> d))
   \<and> (\<exists>x x' x''.
        startMetricsCollector 1 exampleGuild simClock (sequentialPool exampleGuild) exampleConfig
          (0, initialExporter) = Some (905000000000, x)
        \<and> updateMemberCount exampleGuild (ServerID exampleConfig) (905000000000, x)
          = Some (906000000000, x')
        \<and> updateMessageCount exampleGuild simClock (sequentialPool exampleGuild) exampleConfig
            (906000000000, x') = Some (910000000000, x'')
        \<and> startMetricsCollector 2 exampleGuild simClock (sequentialPool exampleGuild) exampleConfig
            (0, initialExporter) = Some (1810000000000, x''))"
proof -
  let ?cycle = "[SkippingExcludedChannel ''general-archive'',
                 ProcessingChannels 2 5, ChannelMessageCount ''general'' 130,
                 FailedToCountMessages ''random'' ''failed to get messages: HTTP 500'',
                 UpdateCompleted 4000000000 1 1]"
  let ?x = "\<lparr>memberCountGauge = float64 3,
            messageCountGauge = [''general'' \<mapsto> float64 130],
            logged = MemberCount 3 # ?cycle\<rparr>"
  let ?x' = "\<lparr>memberCountGauge = float64 3,
            messageCountGauge = [''general'' \<mapsto> float64 130],
            logged = MemberCount 3 # ?cycle @ [MemberCount 3]\<rparr>"
  let ?x'' = "\<lparr>memberCountGauge = float64 3,
            messageCountGauge = [''general'' \<mapsto> float64 130],
            logged = MemberCount 3 # ?cycle @ MemberCount 3 # ?cycle\<rparr>"
  have law: "\<forall>\<sigma> d. Now simClock \<sigma> + d \<le> Now simClock (Sleep simClock \<sigma> d)"
    by (simp add: simClock_def)
  have first: "startMetricsCollector 1 exampleGuild simClock (sequentialPool exampleGuild)
      exampleConfig (0, initialExporter) = Some (905000000000, ?x)"
    by (simp add: exampleGuild_def exampleConfig_excluded example_defs)
  have member: "updateMemberCount exampleGuild (ServerID exampleConfig) (905000000000, ?x)
      = Some (906000000000, ?x')"
    by (simp add: exampleGuild_def example_defs)
  have message: "updateMessageCount exampleGuild simClock (sequentialPool exampleGuild)
      exampleConfig (906000000000, ?x') = Some (910000000000, ?x'')"
    by (simp add: exampleGuild_def exampleConfig_excluded example_defs)
  from startMetricsCollector_schedule
    [where n = 1 and session = exampleGuild and clock = simClock
       and pool = "sequentialPool exampleGuild" and config = exampleConfig
       and start = "(0, initialExporter)" and s = "(905000000000, ?x)"
       and s' = "(906000000000, ?x')" and \<sigma>'' = 910000000000 and x'' = ?x'']
    law first member message
  have "\<exists>\<sigma>'''. startMetricsCollector (Suc 1) exampleGuild simClock (sequentialPool exampleGuild)
        exampleConfig (0, initialExporter) = Some (\<sigma>''', ?x'')
      \<and> \<sigma>''' = Sleep simClock 910000000000 defaultUpdateInterval
      \<and> Now simClock 910000000000 + 15 * 60 * 1000000000 \<le> Now simClock \<sigma>'''"
    by blast
  then have "startMetricsCollector 2 exampleGuild simClock (sequentialPool exampleGuild)
        exampleConfig (0, initialExporter) = Some (1810000000000, ?x'')"
    by (simp add: simClock_def defaultUpdateInterval_def numeral_2_eq_2)
  with law first member message show ?thesis by blast
qed

subsection \<open>The earlier revisions\<close>

text \<open>
  Where the earlier revisions differ from the newest one: in the oldest a failed first
  request of either function is fatal, and a channel whose pagination fails is
  published with its partial total, where the newest leaves the gauge alone; in the
  intermediate one a voice channel is counted and published, where the newest skips it.
\<close>

lemma updateMemberCount_v1_fatal:
  "GuildMembers discordSession \<sigma> serverID [] 1000 = Some (Inl e, \<sigma>') \<Longrightarrow>
   updateMemberCount_v1 discordSession serverID (\<sigma>, x)
     = Some (Fatal (\<sigma>', x\<lparr>logged := logged x @ [FailedToGetGuildMembers e]\<rparr>))"
  by (simp add: updateMemberCount_v1_def Printf_def)

lemma updateMessageCount_v1_fatal:
  "GuildChannels discordSession \<sigma> serverID = Some (Inl e, \<sigma>') \<Longrightarrow>
   updateMessageCount_v1 discordSession serverID (\<sigma>, x)
     = Some (Fatal (\<sigma>', x\<lparr>logged := logged x @ [FailedToGetGuildChannels e]\<rparr>))"
  by (simp add: updateMessageCount_v1_def Printf_def)

lemma updateMessageCount_v1_partial_total:
  "updateMessageCount_v1 brokenSecondPage ''g''
     (0, initialExporter\<lparr>messageCountGauge := [''general'' \<mapsto> float64 7]\<rparr>)
   = Some (Returned (3000000000,
       \<lparr>memberCountGauge = float64 0,
        messageCountGauge = [''general'' \<mapsto> float64 100],
        logged = [FailedToGetMessages ''1'' ''HTTP 500'', MessageCount ''general'' 100]\<rparr>))"
  by (simp add: updateMessageCount_v1_def paginate_v1.simps excludedChannels_v1_def
      brokenSecondPage_def simSession_def Printf_def initialExporter_def)

lemma updateMessageCount_newest_keeps_gauge:
  "updateMessageCount brokenSecondPage simClock (sequentialPool brokenSecondPage)
     \<lparr>Token = ''t'', ServerID = ''g'', ExcludedChannels = {}\<rparr>
     (0, initialExporter\<lparr>messageCountGauge := [''general'' \<mapsto> float64 7]\<rparr>)
   = Some (3000000000,
       \<lparr>memberCountGauge = float64 0,
        messageCountGauge = [''general'' \<mapsto> float64 7],
        logged = [ProcessingChannels 1 5,
                  FailedToCountMessages ''general'' ''failed to get messages: HTTP 500'',
                  UpdateCompleted 3000000000 0 1]\<rparr>)"
  by (simp add: brokenSecondPage_def example_defs)

lemma updateMessageCount_v2_counts_voice:
  "updateMessageCount_v2 voiceOnly \<lparr>Token = ''t'', ServerID = ''g'', ExcludedChannels = {}\<rparr>
     (0, initialExporter)
   = Some (2000000000,
       \<lparr>memberCountGauge = float64 0,
        messageCountGauge = [''Lounge'' \<mapsto> float64 0],
        logged = [ChannelMessageCount ''Lounge'' 0]\<rparr>)"
  by (simp add: updateMessageCount_v2_def voiceOnly_def example_defs)

lemma updateMessageCount_newest_skips_voice:
  "updateMessageCount voiceOnly simClock (sequentialPool voiceOnly)
     \<lparr>Token = ''t'', ServerID = ''g'', ExcludedChannels = {}\<rparr> (0, initialExporter)
   = Some (1000000000,
       \<lparr>memberCountGauge = float64 0, messageCountGauge = Map.empty,
        logged = [NoActiveChannels]\<rparr>)"
  by (simp add: voiceOnly_def example_defs)

end
